theory Spec2Isabelle
  imports Complex_Main "HOL-Library.Word" "HOL-Library.Log_Nat"
begin

section \<open>Failures\<close>

text \<open>
  A failed \<open>ut_a\<close>/\<open>ut_ad\<close> assertion aborts the process, and an unsigned \<open>%\<close> by zero
  traps. Both are results of the model, never silent.
\<close>

datatype error = Assertion_failure | Division_by_zero

section \<open>The companion random number generator (mysys_ssl/my_rnd.cc)\<close>

subsection \<open>Values of type double\<close>

text \<open>
  A finite \<open>double\<close> is the rational number it denotes; \<open>None\<close> stands for every value
  that this model does not track (an infinity, a NaN, and whatever is computed from one).
  Arithmetic is IEEE-754 binary64 in the default rounding mode: the exact result, rounded
  to 53 significant bits (fewer below \<open>2 powi - 1022\<close>), ties to the even significand,
  overflowing at \<open>2 ^ 1024\<close>.
\<close>

type_synonym double = "rat option"

definition round_half_even :: "rat \<Rightarrow> int" where
  "round_half_even x =
     (let f = \<lfloor>x\<rfloor>; d = x - of_int f
      in if d < 1 / 2 then f else if 1 / 2 < d then f + 1 else if even f then f else f + 1)"

text \<open>The exponent \<open>e\<close> with \<open>2 powi e \<le> \<bar>x\<bar> < 2 powi (e + 1)\<close>, for \<open>x \<noteq> 0\<close>.\<close>

definition binade :: "rat \<Rightarrow> int" where
  "binade x =
     (let (p, q) = quotient_of \<bar>x\<bar>; d = bitlen p - bitlen q
      in if power_int 2 d \<le> \<bar>x\<bar> then d else d - 1)"

definition round_double :: "rat \<Rightarrow> double" where
  "round_double x =
     (let e = max (binade x) (- 1022);
          ulp = power_int 2 (e - 52);
          r = of_int (round_half_even (x / ulp)) * ulp
      in if 2 ^ 1024 \<le> \<bar>r\<bar> then None else Some r)"

text \<open>The casts \<open>(double) n\<close> of an unsigned integer, and the division of two doubles.\<close>

definition double_of_word :: "'a::len word \<Rightarrow> double" where
  "double_of_word n = round_double (of_nat (unat n))"

definition double_div :: "double \<Rightarrow> double \<Rightarrow> double" where
  "double_div a b =
     (case (a, b) of
        (Some x, Some y) \<Rightarrow> if y = 0 then None else round_double (x / y)
      | _ \<Rightarrow> None)"

subsection \<open>The generator\<close>

text \<open>
  \<open>struct my_rnd_struct\<close> is declared in my_rnd.h: three \<open>unsigned long\<close> fields and a
  double. The width of \<open>unsigned long\<close> depends on the platform (32 or 64 bits), so it is
  the type parameter \<open>'w\<close>; its arithmetic wraps around.
\<close>

record (overloaded) 'w my_rnd_struct =
  seed1 :: "'w word"
  seed2 :: "'w word"
  max_value :: "'w word"
  max_value_dbl :: double

definition my_rnd_init ::
  "'w::len my_rnd_struct \<Rightarrow> 'w word \<Rightarrow> 'w word \<Rightarrow> 'w my_rnd_struct" where
  "my_rnd_init rand_st s1 s2 =
     (let st = rand_st\<lparr>max_value := 0x3FFFFFFF\<rparr>;
          st = st\<lparr>max_value_dbl := double_of_word (max_value st)\<rparr>;
          st = st\<lparr>seed1 := s1 mod max_value st\<rparr>
      in st\<lparr>seed2 := s2 mod max_value st\<rparr>)"

definition my_rnd :: "'w::len my_rnd_struct \<Rightarrow> error + 'w my_rnd_struct \<times> double" where
  "my_rnd rand_st =
     (if max_value rand_st = 0 then Inl Division_by_zero
      else
        let st = rand_st\<lparr>seed1 := (seed1 rand_st * 3 + seed2 rand_st) mod max_value rand_st\<rparr>;
            st = st\<lparr>seed2 := (seed1 st + seed2 st + 33) mod max_value st\<rparr>
        in Inr (st, double_div (double_of_word (seed1 st)) (max_value_dbl st)))"

text \<open>
  \<open>my_rnd_ssl\<close>. \<open>have_ssl\<close> says whether the build defines \<open>HAVE_YASSL\<close> or
  \<open>HAVE_OPENSSL\<close>; \<open>rand_bytes\<close> is what the library's \<open>RAND_bytes\<close> call leaves: its
  return code \<open>rc\<close>, and the content of \<open>res\<close> after the call (the four bytes
  written, or whatever the variable held when nothing was written). The library returns
  1 when it has written random bytes, and 0 or a negative code when it has not; the code
  tests \<open>if (rc)\<close>.
\<close>

definition UINT_MAX :: "32 word" where
  "UINT_MAX = 0xFFFFFFFF"

definition my_rnd_ssl ::
  "bool \<Rightarrow> int \<times> 32 word \<Rightarrow> 'w::len my_rnd_struct \<Rightarrow> error + 'w my_rnd_struct \<times> double" where
  "my_rnd_ssl have_ssl rand_bytes rand_st =
     (let (rc, res) = rand_bytes
      in if have_ssl \<and> rc \<noteq> 0
         then Inr (rand_st, double_div (double_of_word res) (double_of_word UINT_MAX))
         else my_rnd rand_st)"

text \<open>
  The states \<open>my_rnd_init\<close> leaves behind: the modulus and its double are set, and both
  seeds are below the modulus.
\<close>

definition rnd_initialised :: "'w::len my_rnd_struct \<Rightarrow> bool" where
  "rnd_initialised st =
     (max_value st = 0x3FFFFFFF \<and> max_value_dbl st = Some 0x3FFFFFFF \<and>
      seed1 st < 0x3FFFFFFF \<and> seed2 st < 0x3FFFFFFF)"

text \<open>A caller's successive \<open>my_rnd_ssl\<close> calls on one structure, results dropped.\<close>

fun my_rnd_ssl_calls ::
  "bool \<Rightarrow> (int \<times> 32 word) list \<Rightarrow> 'w::len my_rnd_struct \<Rightarrow> error + 'w my_rnd_struct" where
  "my_rnd_ssl_calls have_ssl [] st = Inr st"
| "my_rnd_ssl_calls have_ssl (rb # rbs) st =
     (case my_rnd_ssl have_ssl rb st of
        Inl e \<Rightarrow> Inl e
      | Inr (st', r) \<Rightarrow> my_rnd_ssl_calls have_ssl rbs st')"

section \<open>Policy based mutexes (storage/innobase/include/ib0mutex.h)\<close>

subsection \<open>Builds, assertions and lock states\<close>

text \<open>
  The header compiles differently under \<open>UNIV_DEBUG\<close> (the \<open>ut_ad\<close> assertions and the
  \<open>ut_d\<close> statements exist) and under \<open>UNIV_PFS_MUTEX\<close> (the instrumentation calls
  exist). \<open>ut_a\<close> asserts in every build.
\<close>

record build =
  univ_debug :: bool
  univ_pfs_mutex :: bool

definition ut_a :: "bool \<Rightarrow> error + 'a \<Rightarrow> error + 'a" where
  "ut_a c rest = (if c then rest else Inl Assertion_failure)"

definition ut_ad :: "build \<Rightarrow> bool \<Rightarrow> error + 'a \<Rightarrow> error + 'a" where
  "ut_ad b c rest = (if univ_debug b then ut_a c rest else rest)"

definition ut_d :: "build \<Rightarrow> ('a \<Rightarrow> 'a) \<Rightarrow> 'a \<Rightarrow> 'a" where
  "ut_d b stmt m = (if univ_debug b then stmt m else m)"

text \<open>
  Modelled from the spec: the enumeration \<open>mutex_state_t\<close>, which ib0mutex.h uses and
  another header declares: "a 32-bit integer with three logical states: UNLOCKED=0,
  LOCKED=1, WAITERS=2". \<open>lock_word_of\<close> is the conversion to the integer stored in a lock word.
\<close>

datatype mutex_state_t = MUTEX_STATE_UNLOCKED | MUTEX_STATE_LOCKED | MUTEX_STATE_WAITERS

fun lock_word_of :: "mutex_state_t \<Rightarrow> 'l::len word" where
  "lock_word_of MUTEX_STATE_UNLOCKED = 0"
| "lock_word_of MUTEX_STATE_LOCKED = 1"
| "lock_word_of MUTEX_STATE_WAITERS = 2"

subsection \<open>The calls a mutex issues\<close>

text \<open>
  Every operation returns, next to the new state of the mutex, the calls it made to the
  atomic primitives, the kernel, the OS layer and the instrumentation, in program order
  and with the arguments written in the source. The lock-word address argument is left
  out: a mutex only ever passes its own.
\<close>

datatype memory_order =
  MY_MEMORY_ORDER_RELAXED | MY_MEMORY_ORDER_ACQUIRE | MY_MEMORY_ORDER_RELEASE

datatype psi_op = PSI_MUTEX_LOCK | PSI_MUTEX_TRYLOCK

type_synonym latch_id_t = nat

datatype call =
    My_atomic_cas32_strong_explicit mutex_state_t mutex_state_t memory_order memory_order
  | My_atomic_fas32_explicit mutex_state_t memory_order
  | My_atomic_faslong mutex_state_t
  | My_atomic_storelong mutex_state_t
  | Sys_futex_wait_private mutex_state_t
  | Sys_futex_wake_private nat
  | Ut_delay_rnd_interval "32 word" "32 word"
  | Os_thread_yield
  | Os_rmb
  | Os_event_create latch_id_t
  | Os_event_destroy nat
  | OSMutex_call_init
  | OSMutex_call_destroy
  | OSMutex_call_try_lock
  | OSMutex_call_exit
  | Call_signal
  | Call_wait string "32 word" "32 word"
  | Psi_start_mutex_wait nat psi_op string "32 word"
  | Psi_end_mutex_wait nat int

text \<open>
  Modelled from the spec: the atomic primitives \<open>my_atomic_*\<close>, which ib0mutex.h calls
  and another header defines. A compare-and-swap stores \<open>desired\<close> and succeeds exactly when the word holds
  \<open>expected\<close>; a fetch-and-store ("atomic swap") stores the value and returns the one it
  replaced; a store stores. Each yields what it returns and the new content of the word.
\<close>

definition my_atomic_cas_strong :: "'l::len word \<Rightarrow> 'l word \<Rightarrow> 'l word \<Rightarrow> bool \<times> 'l word" where
  "my_atomic_cas_strong w expected desired =
     (if w = expected then (True, desired) else (False, w))"

definition my_atomic_fas :: "'l::len word \<Rightarrow> 'l word \<Rightarrow> 'l word \<times> 'l word" where
  "my_atomic_fas w v = (w, v)"

definition my_atomic_store :: "'l::len word \<Rightarrow> 'l word \<Rightarrow> 'l word" where
  "my_atomic_store w v = v"

subsection \<open>The policy\<close>

text \<open>
  The policy is a template parameter: its state is the type parameter \<open>'p\<close>, and the
  member functions the mutexes call are passed in: \<open>add\<close> to the \<open>enter\<close> of an
  implementation, \<open>enter\<close> and \<open>locked\<close> to the facade. The latter two receive the
  implementation they are called with.
\<close>

record 'p with_policy =
  m_policy :: 'p

record ('i, 'p) policy_ops =
  policy_enter :: "'i \<Rightarrow> string \<Rightarrow> 32 word \<Rightarrow> 'p \<Rightarrow> 'p"
  policy_locked :: "'i \<Rightarrow> string \<Rightarrow> 32 word \<Rightarrow> 'p \<Rightarrow> 'p"

subsection \<open>OSTrackMutex\<close>

text \<open>
  Modelled from the spec: \<open>OSMutex\<close>, the adapter over the platform's mutex, which
  another header declares: "\<open>try_lock\<close> returns false without blocking if already
  held". Its state here is whether some thread holds it.
\<close>

record os_mutex =
  os_held :: bool

definition OSMutex_try_lock :: "os_mutex \<Rightarrow> bool \<times> os_mutex" where
  "OSMutex_try_lock o_m = (\<not> os_held o_m, o_m\<lparr>os_held := True\<rparr>)"

definition OSMutex_exit :: "os_mutex \<Rightarrow> os_mutex" where
  "OSMutex_exit o_m = o_m\<lparr>os_held := False\<rparr>"

text \<open>
  The three flags exist in debug builds only; in other builds the model carries them
  untouched. \<open>innodb_calling_exit\<close> is a global of the server, passed as \<open>calling_exit\<close>.
\<close>

record 'p OSTrackMutex = "'p with_policy" +
  m_freed :: bool
  m_locked :: bool
  m_destroy_at_exit :: bool
  m_mutex :: os_mutex

definition OSTrackMutex_new :: "bool \<Rightarrow> 'p \<Rightarrow> 'p OSTrackMutex" where
  "OSTrackMutex_new destroy_mutex_at_exit p =
     \<lparr>m_policy = p, m_freed = True, m_locked = False,
      m_destroy_at_exit = destroy_mutex_at_exit, m_mutex = \<lparr>os_held = False\<rparr>\<rparr>"

definition OSTrackMutex_init ::
  "build \<Rightarrow> latch_id_t \<Rightarrow> string \<Rightarrow> 32 word \<Rightarrow> 'p OSTrackMutex \<Rightarrow>
     error + 'p OSTrackMutex \<times> call list" where
  "OSTrackMutex_init b latch filename line m =
     ut_ad b (m_freed m)
    (ut_ad b (\<not> m_locked m)
    (Inr (ut_d b (\<lambda>m. m\<lparr>m_freed := False\<rparr>) m, [OSMutex_call_init])))"

definition OSTrackMutex_destroy ::
  "build \<Rightarrow> bool \<Rightarrow> 'p OSTrackMutex \<Rightarrow> error + 'p OSTrackMutex \<times> call list" where
  "OSTrackMutex_destroy b calling_exit m =
     ut_ad b (\<not> m_locked m)
    (ut_ad b (calling_exit \<or> \<not> m_freed m)
    (Inr (ut_d b (\<lambda>m. m\<lparr>m_freed := True\<rparr>) m, [OSMutex_call_destroy])))"

definition OSTrackMutex_exit ::
  "build \<Rightarrow> bool \<Rightarrow> 'p OSTrackMutex \<Rightarrow> error + 'p OSTrackMutex \<times> call list" where
  "OSTrackMutex_exit b calling_exit m =
     ut_ad b (m_locked m)
    (let m = ut_d b (\<lambda>m. m\<lparr>m_locked := False\<rparr>) m
     in ut_ad b (calling_exit \<or> \<not> m_freed m)
       (Inr (m\<lparr>m_mutex := OSMutex_exit (m_mutex m)\<rparr>, [OSMutex_call_exit])))"

definition OSTrackMutex_try_lock ::
  "build \<Rightarrow> bool \<Rightarrow> 'p OSTrackMutex \<Rightarrow> error + bool \<times> 'p OSTrackMutex \<times> call list" where
  "OSTrackMutex_try_lock b calling_exit m =
     ut_ad b (calling_exit \<or> \<not> m_freed m)
    (let (locked, o_m) = OSMutex_try_lock (m_mutex m);
         m = m\<lparr>m_mutex := o_m\<rparr>
     in if locked
        then ut_ad b (\<not> m_locked m)
            (Inr (locked, ut_d b (\<lambda>m. m\<lparr>m_locked := locked\<rparr>) m, [OSMutex_call_try_lock]))
        else Inr (locked, m, [OSMutex_call_try_lock]))"

subsection \<open>TTASMutex and TTASFutexMutex\<close>

text \<open>
  The three TTAS structures hold a policy and a lock word; one record carries both
  fields. The word is an \<open>int32\<close> in \<open>TTASMutex\<close> and \<open>TTASFutexMutex\<close>, and a
  \<open>lock_word_t\<close> (declared in another header, and handled by the \<open>long\<close> atomics) of
  some width \<open>'l\<close> in \<open>TTASEventMutex\<close>.
\<close>

record (overloaded) ('l, 'p) ttas_fields = "'p with_policy" +
  m_lock_word :: "'l word"

type_synonym 'p TTASMutex = "(32, 'p) ttas_fields"

type_synonym 'p TTASFutexMutex = "(32, 'p) ttas_fields"

definition TTASMutex_try_lock :: "'p TTASMutex \<Rightarrow> bool \<times> 'p TTASMutex \<times> call list" where
  "TTASMutex_try_lock m =
     (let oldval = lock_word_of MUTEX_STATE_UNLOCKED;
          (ok, w) = my_atomic_cas_strong (m_lock_word m) oldval (lock_word_of MUTEX_STATE_LOCKED)
      in (ok, m\<lparr>m_lock_word := w\<rparr>,
          [My_atomic_cas32_strong_explicit MUTEX_STATE_UNLOCKED MUTEX_STATE_LOCKED
             MY_MEMORY_ORDER_ACQUIRE MY_MEMORY_ORDER_RELAXED]))"

definition TTASFutexMutex_init ::
  "latch_id_t \<Rightarrow> string \<Rightarrow> 32 word \<Rightarrow> 'p TTASFutexMutex \<Rightarrow> error + 'p TTASFutexMutex \<times> call list" where
  "TTASFutexMutex_init latch filename line m =
     ut_a (m_lock_word m = lock_word_of MUTEX_STATE_UNLOCKED) (Inr (m, []))"

definition TTASFutexMutex_try_lock ::
  "'p TTASFutexMutex \<Rightarrow> bool \<times> 'p TTASFutexMutex \<times> call list" where
  "TTASFutexMutex_try_lock m =
     (let oldval = lock_word_of MUTEX_STATE_UNLOCKED;
          (ok, w) = my_atomic_cas_strong (m_lock_word m) oldval (lock_word_of MUTEX_STATE_LOCKED)
      in (ok, m\<lparr>m_lock_word := w\<rparr>,
          [My_atomic_cas32_strong_explicit MUTEX_STATE_UNLOCKED MUTEX_STATE_LOCKED
             MY_MEMORY_ORDER_ACQUIRE MY_MEMORY_ORDER_RELAXED]))"

definition TTASFutexMutex_exit :: "'p TTASFutexMutex \<Rightarrow> 'p TTASFutexMutex \<times> call list" where
  "TTASFutexMutex_exit m =
     (let (old, w) = my_atomic_fas (m_lock_word m) (lock_word_of MUTEX_STATE_UNLOCKED);
          m = m\<lparr>m_lock_word := w\<rparr>;
          t = [My_atomic_fas32_explicit MUTEX_STATE_UNLOCKED MY_MEMORY_ORDER_RELEASE]
      in if old = lock_word_of MUTEX_STATE_WAITERS
         then (m, t @ [Sys_futex_wake_private 1])
         else (m, t))"

text \<open>
  \<open>enter\<close> runs among other threads. The lock word is theirs as much as this thread's:
  the value that the \<open>k\<close>-th access of this call finds in it is \<open>sh k\<close>, for any
  sequence \<open>sh\<close> whatever. The first loop is bounded by \<open>max_spins\<close>; the second one
  ends only when a swap finds the word unlocked, and a call that never returns has the
  value \<open>None\<close>. Each futex wait is taken to return (on a wake-up, spuriously, or at
  once when the word no longer holds \<open>MUTEX_STATE_WAITERS\<close>): a wait that is never
  woken has no later access, and no \<open>sh\<close> describes it.
\<close>

partial_function (option) TTASFutexMutex_enter_waits ::
  "(nat \<Rightarrow> 32 word) \<Rightarrow> nat \<Rightarrow> 32 word \<Rightarrow> 'p TTASFutexMutex \<Rightarrow> call list \<Rightarrow>
     (32 word \<times> 'p TTASFutexMutex \<times> call list) option" where
  "TTASFutexMutex_enter_waits sh k n_waits m t =
     (let (old, w) = my_atomic_fas (sh k) (lock_word_of MUTEX_STATE_WAITERS);
          m = m\<lparr>m_lock_word := w\<rparr>;
          t = t @ [My_atomic_fas32_explicit MUTEX_STATE_WAITERS MY_MEMORY_ORDER_ACQUIRE]
      in if old = lock_word_of MUTEX_STATE_UNLOCKED then Some (n_waits, m, t)
         else TTASFutexMutex_enter_waits sh (Suc k) (n_waits + 1) m
                (t @ [Sys_futex_wait_private MUTEX_STATE_WAITERS]))"

declare TTASFutexMutex_enter_waits.simps [code]

function TTASFutexMutex_enter_spins ::
  "(nat \<Rightarrow> 32 word) \<Rightarrow> (32 word \<Rightarrow> 32 word \<Rightarrow> 'p \<Rightarrow> 'p) \<Rightarrow> 32 word \<Rightarrow> 32 word \<Rightarrow> 32 word \<Rightarrow>
     'p TTASFutexMutex \<Rightarrow> call list \<Rightarrow> ('p TTASFutexMutex \<times> call list) option" where
  "TTASFutexMutex_enter_spins sh add max_spins max_delay n_spins m t =
     (if n_spins < max_spins then
        (let (ok, m, c) = TTASFutexMutex_try_lock (m\<lparr>m_lock_word := sh (unat n_spins)\<rparr>)
         in if ok then Some (m\<lparr>m_policy := add n_spins 0 (m_policy m)\<rparr>, t @ c)
            else TTASFutexMutex_enter_spins sh add max_spins max_delay (n_spins + 1) m
                   (t @ c @ [Ut_delay_rnd_interval 0 max_delay]))
      else
        (case TTASFutexMutex_enter_waits sh (unat n_spins) 0 m t of
           None \<Rightarrow> None
         | Some (n_waits, m, t) \<Rightarrow> Some (m\<lparr>m_policy := add n_spins n_waits (m_policy m)\<rparr>, t)))"
  by pat_completeness auto
termination
proof (relation "measure (\<lambda>(sh, add, max_spins, max_delay, n_spins, m, t). unat max_spins - unat n_spins)")
  show "wf (measure (\<lambda>(sh, add, max_spins, max_delay, n_spins, m, t). unat max_spins - unat n_spins))"
    by simp
next
  fix sh :: "nat \<Rightarrow> 32 word" and add :: "32 word \<Rightarrow> 32 word \<Rightarrow> 'p \<Rightarrow> 'p"
    and max_spins max_delay n_spins :: "32 word"
    and m m' :: "'p TTASFutexMutex" and t c :: "call list"
  assume "n_spins < max_spins"
  then have lt: "unat n_spins < unat max_spins" by (simp add: word_less_nat_alt)
  moreover have "unat max_spins < 2 ^ 32" using unsigned_less[of max_spins] by simp
  ultimately have "unat (n_spins + 1) = unat n_spins + 1"
    by (simp add: unat_word_ariths)
  with lt
  show "((sh, add, max_spins, max_delay, n_spins + 1, m',
          t @ c @ [Ut_delay_rnd_interval 0 max_delay]),
         (sh, add, max_spins, max_delay, n_spins, m, t))
        \<in> measure (\<lambda>(sh, add, max_spins, max_delay, n_spins, m, t). unat max_spins - unat n_spins)"
    by simp
qed

declare TTASFutexMutex_enter_spins.simps [simp del]

definition TTASFutexMutex_enter ::
  "(nat \<Rightarrow> 32 word) \<Rightarrow> (32 word \<Rightarrow> 32 word \<Rightarrow> 'p \<Rightarrow> 'p) \<Rightarrow> 32 word \<Rightarrow> 32 word \<Rightarrow> string \<Rightarrow>
     32 word \<Rightarrow> 'p TTASFutexMutex \<Rightarrow> ('p TTASFutexMutex \<times> call list) option" where
  "TTASFutexMutex_enter sh add max_spins max_delay filename line m =
     TTASFutexMutex_enter_spins sh add max_spins max_delay 0 m []"

subsection \<open>TTASEventMutex\<close>

text \<open>
  \<open>m_event\<close> is the handle of the OS event, 0 for the null handle. \<open>signal\<close> and
  \<open>wait\<close> are members that ib0mutex.h declares and does not define: they are passed
  in, and may change the mutex as they like. The \<open>k\<close> given to \<open>wait\<close> numbers the
  call, as its outcome depends on the other threads.
\<close>

record (overloaded) ('l, 'p) TTASEventMutex = "('l, 'p) ttas_fields" +
  m_waiters :: "'l word"
  m_event :: nat

definition TTASEventMutex_new :: "'p \<Rightarrow> ('l::len, 'p) TTASEventMutex" where
  "TTASEventMutex_new p =
     \<lparr>m_policy = p, m_lock_word = lock_word_of MUTEX_STATE_UNLOCKED, m_waiters = 0, m_event = 0\<rparr>"

text \<open>\<open>created\<close> is the handle that \<open>os_event_create\<close> returns.\<close>

definition TTASEventMutex_init ::
  "nat \<Rightarrow> latch_id_t \<Rightarrow> string \<Rightarrow> 32 word \<Rightarrow> ('l::len, 'p) TTASEventMutex \<Rightarrow>
     error + ('l, 'p) TTASEventMutex \<times> call list" where
  "TTASEventMutex_init created latch filename line m =
     ut_a (m_event m = 0)
    (ut_a (m_lock_word m = lock_word_of MUTEX_STATE_UNLOCKED)
    (Inr (m\<lparr>m_event := created\<rparr>, [Os_event_create latch])))"

definition TTASEventMutex_destroy ::
  "build \<Rightarrow> ('l::len, 'p) TTASEventMutex \<Rightarrow> error + ('l, 'p) TTASEventMutex \<times> call list" where
  "TTASEventMutex_destroy b m =
     ut_ad b (m_lock_word m = lock_word_of MUTEX_STATE_UNLOCKED)
    (Inr (m\<lparr>m_event := 0\<rparr>, [Os_event_destroy (m_event m)]))"

definition TTASEventMutex_tas_lock ::
  "('l::len, 'p) TTASEventMutex \<Rightarrow> bool \<times> ('l, 'p) TTASEventMutex \<times> call list" where
  "TTASEventMutex_tas_lock m =
     (let (old, w) = my_atomic_fas (m_lock_word m) (lock_word_of MUTEX_STATE_LOCKED)
      in (old = lock_word_of MUTEX_STATE_UNLOCKED, m\<lparr>m_lock_word := w\<rparr>,
          [My_atomic_faslong MUTEX_STATE_LOCKED]))"

definition TTASEventMutex_tas_unlock ::
  "('l::len, 'p) TTASEventMutex \<Rightarrow> ('l, 'p) TTASEventMutex \<times> call list" where
  "TTASEventMutex_tas_unlock m =
     (m\<lparr>m_lock_word := my_atomic_store (m_lock_word m) (lock_word_of MUTEX_STATE_UNLOCKED)\<rparr>,
      [My_atomic_storelong MUTEX_STATE_UNLOCKED])"

definition TTASEventMutex_try_lock ::
  "('l::len, 'p) TTASEventMutex \<Rightarrow> bool \<times> ('l, 'p) TTASEventMutex \<times> call list" where
  "TTASEventMutex_try_lock m = TTASEventMutex_tas_lock m"

definition TTASEventMutex_exit ::
  "(('l::len, 'p) TTASEventMutex \<Rightarrow> ('l, 'p) TTASEventMutex) \<Rightarrow> ('l, 'p) TTASEventMutex \<Rightarrow>
     ('l, 'p) TTASEventMutex \<times> call list" where
  "TTASEventMutex_exit signal m =
     (let (m, t) = TTASEventMutex_tas_unlock m
      in if m_waiters m \<noteq> 0 then (signal m, t @ [Call_signal]) else (m, t))"

definition TTASEventMutex_is_locked :: "('l::len, 'p) TTASEventMutex \<Rightarrow> bool" where
  "TTASEventMutex_is_locked m = (m_lock_word m \<noteq> lock_word_of MUTEX_STATE_UNLOCKED)"

text \<open>
  In \<open>enter\<close> the lock word is read and swapped among the other threads, as in
  \<open>TTASFutexMutex\<close>: the \<open>k\<close>-th access finds \<open>sh k\<close>. The functions thread the number
  \<open>k\<close> of the next access. \<open>is_free\<close> counts \<open>n_spins\<close> in 32 bits, wrapping around.
\<close>

function TTASEventMutex_is_free_loop ::
  "(nat \<Rightarrow> 'l::len word) \<Rightarrow> 32 word \<Rightarrow> 32 word \<Rightarrow> 32 word \<Rightarrow> nat \<Rightarrow> ('l, 'p) TTASEventMutex \<Rightarrow>
     call list \<Rightarrow> bool \<times> 32 word \<times> nat \<times> call list" where
  "TTASEventMutex_is_free_loop sh max_spins max_delay n_spins k m t =
     (if \<not> TTASEventMutex_is_locked (m\<lparr>m_lock_word := sh k\<rparr>) then (True, n_spins, Suc k, t)
      else
        let t = t @ [Ut_delay_rnd_interval 0 max_delay];
            n_spins = n_spins + 1
        in if n_spins < max_spins
           then TTASEventMutex_is_free_loop sh max_spins max_delay n_spins (Suc k) m t
           else (False, n_spins, Suc k, t))"
  by pat_completeness auto
termination
proof (relation "measure (\<lambda>(sh, max_spins, max_delay, n_spins, k, m, t). unat (max_spins - 1 - n_spins))")
  show "wf (measure (\<lambda>(sh, max_spins, max_delay, n_spins, k, m, t). unat (max_spins - 1 - n_spins)))"
    by simp
next
  fix sh :: "nat \<Rightarrow> 'l word" and max_spins max_delay n_spins n_spins' :: "32 word" and k :: nat
    and m :: "('l, 'p) TTASEventMutex" and t t' :: "call list"
  assume e: "n_spins' = n_spins + 1" and lt: "n_spins' < max_spins"
  define x where "x = max_spins - 1 - n_spins"
  have "x \<noteq> 0"
  proof
    assume "x = 0"
    then have "max_spins = n_spins + 1" by (simp add: x_def algebra_simps)
    with e lt show False by simp
  qed
  then have "unat (x - 1) < unat x"
    by (simp add: unat_minus_one unat_gt_0)
  moreover have "max_spins - 1 - n_spins' = x - 1"
    by (simp add: e x_def)
  ultimately have "unat (max_spins - 1 - n_spins') < unat (max_spins - 1 - n_spins)"
    by (metis x_def)
  then
  show "((sh, max_spins, max_delay, n_spins', Suc k, m, t'),
         (sh, max_spins, max_delay, n_spins, k, m, t))
        \<in> measure (\<lambda>(sh, max_spins, max_delay, n_spins, k, m, t). unat (max_spins - 1 - n_spins))"
    by (simp only: in_measure prod.case)
qed

declare TTASEventMutex_is_free_loop.simps [simp del]

definition TTASEventMutex_is_free ::
  "build \<Rightarrow> (nat \<Rightarrow> 'l::len word) \<Rightarrow> 32 word \<Rightarrow> 32 word \<Rightarrow> 32 word \<Rightarrow> nat \<Rightarrow>
     ('l, 'p) TTASEventMutex \<Rightarrow> error + bool \<times> 32 word \<times> nat \<times> call list" where
  "TTASEventMutex_is_free b sh max_spins max_delay n_spins k m =
     ut_ad b (n_spins \<le> max_spins)
    (Inr (TTASEventMutex_is_free_loop sh max_spins max_delay n_spins k m []))"

partial_function (option) TTASEventMutex_spin_and_try_lock_loop ::
  "build \<Rightarrow> (nat \<Rightarrow> 'l::len word) \<Rightarrow>
   (nat \<Rightarrow> string \<Rightarrow> 32 word \<Rightarrow> 32 word \<Rightarrow> ('l, 'p) TTASEventMutex \<Rightarrow> bool \<times> ('l, 'p) TTASEventMutex) \<Rightarrow>
   (32 word \<Rightarrow> 32 word \<Rightarrow> 'p \<Rightarrow> 'p) \<Rightarrow> 32 word \<Rightarrow> 32 word \<Rightarrow> string \<Rightarrow> 32 word \<Rightarrow>
   32 word \<Rightarrow> 32 word \<Rightarrow> 32 word \<Rightarrow> nat \<Rightarrow> ('l, 'p) TTASEventMutex \<Rightarrow> call list \<Rightarrow>
     (error + ('l, 'p) TTASEventMutex \<times> call list) option" where
  "TTASEventMutex_spin_and_try_lock_loop b sh wait add step max_delay filename line
       max_spins n_spins n_waits k m t =
     (case TTASEventMutex_is_free b sh max_spins max_delay n_spins k m of
        Inl e \<Rightarrow> Some (Inl e)
      | Inr (free, n_spins, k, c) \<Rightarrow>
          if free then
            (let (ok, m, c') = TTASEventMutex_try_lock (m\<lparr>m_lock_word := sh k\<rparr>)
             in if ok
                then Some (Inr (m\<lparr>m_policy := add n_spins n_waits (m_policy m)\<rparr>, t @ c @ c'))
                else TTASEventMutex_spin_and_try_lock_loop b sh wait add step max_delay filename
                       line max_spins n_spins n_waits (Suc k) m (t @ c @ c'))
          else
            (let max_spins = n_spins + step;
                 n_waits = n_waits + 1;
                 t = t @ c @ [Os_thread_yield, Call_wait filename line 4];
                 (acquired, m) = wait k filename line 4 m
             in if acquired
                then Some (Inr (m\<lparr>m_policy := add (n_spins + 4) n_waits (m_policy m)\<rparr>, t))
                else TTASEventMutex_spin_and_try_lock_loop b sh wait add step max_delay filename
                       line max_spins n_spins n_waits (Suc k) m t))"

declare TTASEventMutex_spin_and_try_lock_loop.simps [code]

definition TTASEventMutex_spin_and_try_lock ::
  "build \<Rightarrow> (nat \<Rightarrow> 'l::len word) \<Rightarrow>
   (nat \<Rightarrow> string \<Rightarrow> 32 word \<Rightarrow> 32 word \<Rightarrow> ('l, 'p) TTASEventMutex \<Rightarrow> bool \<times> ('l, 'p) TTASEventMutex) \<Rightarrow>
   (32 word \<Rightarrow> 32 word \<Rightarrow> 'p \<Rightarrow> 'p) \<Rightarrow> 32 word \<Rightarrow> 32 word \<Rightarrow> string \<Rightarrow> 32 word \<Rightarrow>
   nat \<Rightarrow> ('l, 'p) TTASEventMutex \<Rightarrow> call list \<Rightarrow>
     (error + ('l, 'p) TTASEventMutex \<times> call list) option" where
  "TTASEventMutex_spin_and_try_lock b sh wait add max_spins max_delay filename line k m t =
     TTASEventMutex_spin_and_try_lock_loop b sh wait add max_spins max_delay filename line
       max_spins 0 0 k m (t @ [Os_rmb])"

definition TTASEventMutex_enter ::
  "build \<Rightarrow> (nat \<Rightarrow> 'l::len word) \<Rightarrow>
   (nat \<Rightarrow> string \<Rightarrow> 32 word \<Rightarrow> 32 word \<Rightarrow> ('l, 'p) TTASEventMutex \<Rightarrow> bool \<times> ('l, 'p) TTASEventMutex) \<Rightarrow>
   (32 word \<Rightarrow> 32 word \<Rightarrow> 'p \<Rightarrow> 'p) \<Rightarrow> 32 word \<Rightarrow> 32 word \<Rightarrow> string \<Rightarrow> 32 word \<Rightarrow>
   ('l, 'p) TTASEventMutex \<Rightarrow> (error + ('l, 'p) TTASEventMutex \<times> call list) option" where
  "TTASEventMutex_enter b sh wait add max_spins max_delay filename line m =
     (let (ok, m, c) = TTASEventMutex_try_lock (m\<lparr>m_lock_word := sh 0\<rparr>)
      in if ok then Some (Inr (m, c))
         else TTASEventMutex_spin_and_try_lock b sh wait add max_spins max_delay filename line
                (Suc 0) m c)"

subsection \<open>PolicyMutex\<close>

text \<open>
  The facade over an implementation \<open>'i\<close>, any of the four structures above: each
  carries the policy in its field \<open>m_policy\<close>. \<open>m_ptr\<close> is the instrumentation handle
  (0 for none) of \<open>UNIV_PFS_MUTEX\<close> builds; \<open>locker\<close> is what the instrumentation's
  \<open>start_mutex_wait\<close> returns. The implementation's \<open>try_lock\<close> is passed in.
\<close>

record 'i PolicyMutex =
  m_impl :: 'i
  m_ptr :: nat

definition pfs_begin_trylock ::
  "nat \<Rightarrow> string \<Rightarrow> 32 word \<Rightarrow> 'i PolicyMutex \<Rightarrow> nat \<times> call list" where
  "pfs_begin_trylock locker name line m =
     (if m_ptr m \<noteq> 0
      then (locker, [Psi_start_mutex_wait (m_ptr m) PSI_MUTEX_TRYLOCK name line])
      else (0, []))"

definition pfs_end :: "nat \<Rightarrow> int \<Rightarrow> call list" where
  "pfs_end locker ret = (if locker \<noteq> 0 then [Psi_end_mutex_wait locker ret] else [])"

definition PolicyMutex_trylock ::
  "build \<Rightarrow> nat \<Rightarrow> (('p, 'z) with_policy_scheme \<Rightarrow> error + bool \<times> ('p, 'z) with_policy_scheme \<times> call list) \<Rightarrow>
   (('p, 'z) with_policy_scheme, 'p) policy_ops \<Rightarrow> string \<Rightarrow> 32 word \<Rightarrow>
   ('p, 'z) with_policy_scheme PolicyMutex \<Rightarrow>
     error + int \<times> ('p, 'z) with_policy_scheme PolicyMutex \<times> call list" where
  "PolicyMutex_trylock b locker try_lock policy name line m =
     (let (locker, t0) = (if univ_pfs_mutex b then pfs_begin_trylock locker name line m else (0, []))
      in case try_lock (m_impl m) of
           Inl e \<Rightarrow> Inl e
         | Inr (ok, impl, t1) \<Rightarrow>
             let ret = (if ok then 0 else 1);
                 impl = (if ret = 0
                   then let impl = impl\<lparr>m_policy := policy_enter policy impl name line (m_policy impl)\<rparr>
                        in impl\<lparr>m_policy := policy_locked policy impl name line (m_policy impl)\<rparr>
                   else impl);
                 t2 = (if univ_pfs_mutex b then pfs_end locker 0 else [])
             in Inr (ret, m\<lparr>m_impl := impl\<rparr>, t0 @ t1 @ t2))"

subsection \<open>A life of a TTASEventMutex\<close>

text \<open>
  The public operations that change a \<open>TTASEventMutex\<close> (\<open>'w\<close> is the type of its lock
  word), and a caller applying them one after the other. A failed assertion ends the run; an \<open>enter\<close> that does not return
  leaves it without a result.
\<close>

datatype 'w event_mutex_op =
    Op_init nat latch_id_t string "32 word"
  | Op_destroy
  | Op_try_lock
  | Op_exit
  | Op_enter "nat \<Rightarrow> 'w" "32 word" "32 word" string "32 word"

fun TTASEventMutex_apply ::
  "build \<Rightarrow>
   (nat \<Rightarrow> string \<Rightarrow> 32 word \<Rightarrow> 32 word \<Rightarrow> ('l::len, 'p) TTASEventMutex \<Rightarrow> bool \<times> ('l, 'p) TTASEventMutex) \<Rightarrow>
   (('l, 'p) TTASEventMutex \<Rightarrow> ('l, 'p) TTASEventMutex) \<Rightarrow> (32 word \<Rightarrow> 32 word \<Rightarrow> 'p \<Rightarrow> 'p) \<Rightarrow>
   'l word event_mutex_op \<Rightarrow> ('l, 'p) TTASEventMutex \<Rightarrow> (error + ('l, 'p) TTASEventMutex) option" where
  "TTASEventMutex_apply b wait signal add (Op_init created latch filename line) m =
     Some (map_sum (\<lambda>e. e) fst (TTASEventMutex_init created latch filename line m))"
| "TTASEventMutex_apply b wait signal add Op_destroy m =
     Some (map_sum (\<lambda>e. e) fst (TTASEventMutex_destroy b m))"
| "TTASEventMutex_apply b wait signal add Op_try_lock m =
     Some (Inr (fst (snd (TTASEventMutex_try_lock m))))"
| "TTASEventMutex_apply b wait signal add Op_exit m =
     Some (Inr (fst (TTASEventMutex_exit signal m)))"
| "TTASEventMutex_apply b wait signal add (Op_enter sh max_spins max_delay filename line) m =
     map_option (map_sum (\<lambda>e. e) fst)
       (TTASEventMutex_enter b sh wait add max_spins max_delay filename line m)"

fun TTASEventMutex_run ::
  "build \<Rightarrow>
   (nat \<Rightarrow> string \<Rightarrow> 32 word \<Rightarrow> 32 word \<Rightarrow> ('l::len, 'p) TTASEventMutex \<Rightarrow> bool \<times> ('l, 'p) TTASEventMutex) \<Rightarrow>
   (('l, 'p) TTASEventMutex \<Rightarrow> ('l, 'p) TTASEventMutex) \<Rightarrow> (32 word \<Rightarrow> 32 word \<Rightarrow> 'p \<Rightarrow> 'p) \<Rightarrow>
   'l word event_mutex_op list \<Rightarrow> ('l, 'p) TTASEventMutex \<Rightarrow> (error + ('l, 'p) TTASEventMutex) option" where
  "TTASEventMutex_run b wait signal add [] m = Some (Inr m)"
| "TTASEventMutex_run b wait signal add (op # ops) m =
     (case TTASEventMutex_apply b wait signal add op m of
        None \<Rightarrow> None
      | Some (Inl e) \<Rightarrow> Some (Inl e)
      | Some (Inr m') \<Rightarrow> TTASEventMutex_run b wait signal add ops m')"

text \<open>
  Whether a mutex is between \<open>init\<close> and \<open>destroy\<close> after these operations, given
  whether it was before them; and whether an \<open>init\<close> is given a handle that is not null.
\<close>

fun between_init_and_destroy :: "bool \<Rightarrow> 'w event_mutex_op list \<Rightarrow> bool" where
  "between_init_and_destroy live [] = live"
| "between_init_and_destroy live (Op_init created latch filename line # ops) =
     between_init_and_destroy True ops"
| "between_init_and_destroy live (Op_destroy # ops) = between_init_and_destroy False ops"
| "between_init_and_destroy live (op # ops) = between_init_and_destroy live ops"

fun creates_event :: "'w event_mutex_op \<Rightarrow> bool" where
  "creates_event (Op_init created latch filename line) = (created \<noteq> 0)"
| "creates_event op = True"

section \<open>Properties of the random number generator\<close>

lemma round_half_even_upper: "of_int (round_half_even x) \<le> x + 1 / 2"
  unfolding round_half_even_def Let_def by (auto; linarith)

lemma round_half_even_lower: "x - 1 / 2 \<le> of_int (round_half_even x)"
  unfolding round_half_even_def Let_def by (auto; linarith)

lemma round_half_even_nonneg: "0 \<le> x \<Longrightarrow> 0 \<le> round_half_even x"
  unfolding round_half_even_def Let_def by (auto; linarith)

lemma round_half_even_of_int: "round_half_even (of_int k) = k"
  unfolding round_half_even_def Let_def by simp

lemma quotient_of_pos:
  assumes "0 < x" "quotient_of x = (p, q)"
  shows "0 < p" "0 < q" "x = of_int p / of_int q"
  using assms quotient_of_denom_pos[of x p q] quotient_of_div[of x p q]
  by (auto simp: zero_less_divide_iff)

lemma bitlen_one: "bitlen 1 = 1"
  by (simp add: bitlen_alt_def)

lemma binade_lt_one:
  assumes "0 \<le> x" "x < 1"
  shows "binade x \<le> - 1"
proof (cases "x = 0")
  case True
  then show ?thesis by (simp add: binade_def bitlen_one)
next
  case False
  with assms have pos: "0 < x" by simp
  obtain p q where pq: "quotient_of x = (p, q)" by (cases "quotient_of x")
  from quotient_of_pos[OF pos pq] have p: "0 < p" and q: "0 < q" and x: "x = of_int p / of_int q"
    by auto
  from x assms(2) q have "p < q" by (simp add: divide_less_eq)
  then have "nat p \<le> nat q" by simp
  then have d: "bitlen p - bitlen q \<le> 0"
    by (simp add: bitlen_def floorlog_mono)
  show ?thesis
  proof (cases "bitlen p - bitlen q = 0")
    case True
    with pos pq assms(2) show ?thesis by (simp add: binade_def)
  next
    case False
    with d have "bitlen p - bitlen q \<le> - 1" by simp
    with pos pq show ?thesis by (simp add: binade_def Let_def)
  qed
qed

lemma binade_of_int:
  assumes "0 \<le> k" "k < 2 ^ 53"
  shows "binade (of_int k) \<le> 52"
proof -
  from assms(2) have "bitlen k \<le> 53"
    by (simp add: bitlen_le_iff_power)
  with assms(1) show ?thesis by (simp add: binade_def Let_def bitlen_one)
qed

lemma power_int_2_pos: "0 < power_int (2 :: rat) e"
  by (simp add: power_int_def)

lemma power_int_2_mono: "a \<le> b \<Longrightarrow> power_int (2 :: rat) a \<le> power_int 2 b"
  by (rule power_int_increasing) simp_all

lemma round_double_of_int:
  assumes "0 \<le> k" "k < 2 ^ 53"
  shows "round_double (of_int k) = Some (of_int k)"
proof -
  define e where "e = max (binade (of_int k)) (- 1022)"
  define n where "n = nat (52 - e)"
  from binade_of_int[OF assms] have e: "e \<le> 52" by (simp add: e_def)
  then have ulp: "power_int (2 :: rat) (e - 52) = 1 / 2 ^ n"
    by (simp add: n_def power_int_def field_simps)
  have "of_int k / (1 / 2 ^ n) = (of_int (k * 2 ^ n) :: rat)" by simp
  then have r: "round_half_even (of_int k / (1 / 2 ^ n)) = k * 2 ^ n"
    by (simp only: round_half_even_of_int)
  have lt: "\<bar>rat_of_int k\<bar> < 2 ^ 1024"
  proof -
    from assms have "rat_of_int k < 2 ^ 53" by (metis of_int_less_numeral_power_cancel_iff)
    also have "(2 :: rat) ^ 53 < 2 ^ 1024" by simp
    finally show ?thesis using assms(1) by simp
  qed
  show ?thesis
    unfolding round_double_def Let_def e_def[symmetric] ulp r using lt by simp
qed

lemma round_double_unit:
  assumes "0 \<le> x" "x \<le> 1 - 1 / 2 ^ 30"
  shows "\<exists>r. round_double x = Some r \<and> 0 \<le> r \<and> r < 1"
proof -
  define e where "e = max (binade x) (- 1022)"
  define ulp where "ulp = power_int (2 :: rat) (e - 52)"
  define r where "r = of_int (round_half_even (x / ulp)) * ulp"
  from assms have "x < 1" by (simp add: field_simps)
  from binade_lt_one[OF assms(1) this] have "e - 52 \<le> - 53" by (simp add: e_def)
  from power_int_2_mono[OF this] have "ulp \<le> power_int 2 (- 53)"
    by (simp add: ulp_def)
  also have "power_int (2 :: rat) (- 53) = 1 / 2 ^ 53"
    by (simp add: power_int_minus_divide)
  finally have ulp_le: "ulp \<le> 1 / 2 ^ 53" .
  have ulp_pos: "0 < ulp" by (simp add: ulp_def power_int_2_pos)
  have "r \<le> (x / ulp + 1 / 2) * ulp"
    unfolding r_def using round_half_even_upper[of "x / ulp"] ulp_pos
    by (simp add: mult_right_mono)
  also have "\<dots> = x + ulp / 2" using ulp_pos by (simp add: field_simps)
  also have "\<dots> \<le> 1 - 1 / 2 ^ 30 + 1 / 2 ^ 54" using assms(2) ulp_le by simp
  also have "\<dots> < 1" by simp
  finally have r1: "r < 1" .
  have r0: "0 \<le> r"
    unfolding r_def using round_half_even_nonneg[of "x / ulp"] assms(1) ulp_pos by simp
  from r0 r1 have "\<not> 2 ^ 1024 \<le> \<bar>r\<bar>" by simp
  then have "round_double x = Some r"
    unfolding round_double_def Let_def e_def[symmetric] ulp_def[symmetric] r_def[symmetric]
    by simp
  with r0 r1 show ?thesis by blast
qed

lemma take_bit_small:
  assumes "32 \<le> LENGTH('w::len)" "n < 2 ^ 32"
  shows "take_bit LENGTH('w) (n :: nat) = n"
proof -
  have "(2 :: nat) ^ 32 \<le> 2 ^ LENGTH('w)" using assms(1) by (rule power_increasing) simp
  with assms(2) have "n < 2 ^ LENGTH('w)" by simp
  then show ?thesis by (rule take_bit_nat_eq_self)
qed

lemma unat_max30:
  assumes "32 \<le> LENGTH('w::len)"
  shows "unat (0x3FFFFFFF :: 'w word) = 1073741823"
  by (simp add: take_bit_small[OF assms])

lemma max30_neq_0:
  assumes "32 \<le> LENGTH('w::len)"
  shows "(0x3FFFFFFF :: 'w word) \<noteq> 0"
  using unat_max30[OF assms] by (metis unat_0 zero_neq_numeral)

lemma lcg_seed1:
  fixes a b :: "'w::len word"
  assumes w: "32 \<le> LENGTH('w)" and a: "a < 0x3FFFFFFF" and b: "b < 0x3FFFFFFF"
  shows "unat ((a * 3 + b) mod 0x3FFFFFFF) = (unat a * 3 + unat b) mod 1073741823"
proof -
  have p: "(2 :: nat) ^ 32 \<le> 2 ^ LENGTH('w)" using w by (rule power_increasing) simp
  from a b have ua: "unat a < 1073741823" and ub: "unat b < 1073741823"
    by (simp_all add: word_less_nat_alt take_bit_small[OF w])
  have "unat (3 :: 'w word) = 3" by (simp add: take_bit_small[OF w])
  then have "unat (a * 3) = unat a * 3" using ua p by (simp add: unat_word_ariths)
  then have "unat (a * 3 + b) = unat a * 3 + unat b" using ua ub p by (simp add: unat_word_ariths)
  then show ?thesis by (simp add: unat_mod take_bit_small[OF w])
qed

lemma lcg_seed2:
  fixes a b :: "'w::len word"
  assumes w: "32 \<le> LENGTH('w)" and a: "a < 0x3FFFFFFF" and b: "b < 0x3FFFFFFF"
  shows "unat ((a + b + 33) mod 0x3FFFFFFF) = (unat a + unat b + 33) mod 1073741823"
proof -
  have p: "(2 :: nat) ^ 32 \<le> 2 ^ LENGTH('w)" using w by (rule power_increasing) simp
  from a b have ua: "unat a < 1073741823" and ub: "unat b < 1073741823"
    by (simp_all add: word_less_nat_alt take_bit_small[OF w])
  have "unat (33 :: 'w word) = 33" by (simp add: take_bit_small[OF w])
  moreover have "unat (a + b) = unat a + unat b" using ua ub p by (simp add: unat_word_ariths)
  ultimately have "unat (a + b + 33) = unat a + unat b + 33"
    using ua ub p by (simp add: unat_word_ariths)
  then show ?thesis by (simp add: unat_mod take_bit_small[OF w])
qed

lemma mod_max30_less:
  fixes x :: "'w::len word"
  assumes w: "32 \<le> LENGTH('w)"
  shows "x mod 0x3FFFFFFF < 0x3FFFFFFF"
  by (simp add: word_less_nat_alt unat_mod take_bit_small[OF w])

lemma double_of_max30:
  assumes w: "32 \<le> LENGTH('w::len)"
  shows "double_of_word (0x3FFFFFFF :: 'w word) = Some 0x3FFFFFFF"
  using round_double_of_int[of 1073741823]
  by (simp add: double_of_word_def take_bit_small[OF w])

lemma double_of_small:
  fixes x :: "'w::len word"
  assumes "unat x < 2 ^ 53"
  shows "double_of_word x = Some (of_nat (unat x))"
proof -
  from assms have "int (unat x) < 2 ^ 53" by (metis of_nat_less_numeral_power_cancel_iff)
  with round_double_of_int[of "int (unat x)"] show ?thesis
    by (simp add: double_of_word_def)
qed

lemma quotient_unit:
  assumes "n < (1073741823 :: nat)"
  shows "(0 :: rat) \<le> of_nat n / 1073741823" "of_nat n / 1073741823 \<le> (1 :: rat) - 1 / 2 ^ 30"
proof -
  show "(0 :: rat) \<le> of_nat n / 1073741823" by simp
  from assms have "n \<le> 1073741822" by simp
  then have "(of_nat n :: rat) \<le> 1073741822" by (metis of_nat_le_iff of_nat_numeral)
  then show "of_nat n / 1073741823 \<le> (1 :: rat) - 1 / 2 ^ 30" by simp
qed

text \<open>
  Claim C7. \<open>my_rnd_init\<close> leaves both seeds in \<open>[0, 0x3FFFFFFF)\<close>, whatever the width of
  \<open>unsigned long\<close> (at least 32 bits). On every such state \<open>my_rnd\<close> returns; the new
  \<open>seed1\<close> is \<open>(seed1 * 3 + seed2) mod 0x3FFFFFFF\<close> with no wrap-around, the new
  \<open>seed2\<close> is \<open>(new seed1 + seed2 + 33) mod 0x3FFFFFFF\<close>, computed from the seed1 already
  updated; the result is the double nearest to \<open>new seed1 / 0x3FFFFFFF\<close>, which lies in
  \<open>[0, 1)\<close>; and the state is again one of those that \<open>my_rnd_init\<close> leaves.
\<close>

theorem my_rnd_step:
  fixes st st0 :: "'w::len my_rnd_struct"
  assumes w: "32 \<le> LENGTH('w)"
  shows "rnd_initialised (my_rnd_init st0 s1 s2) \<and>
    (rnd_initialised st \<longrightarrow>
      (\<exists>st' r. my_rnd st = Inr (st', Some r) \<and>
         unat (seed1 st') = (unat (seed1 st) * 3 + unat (seed2 st)) mod 0x3FFFFFFF \<and>
         unat (seed2 st') = (unat (seed1 st') + unat (seed2 st) + 33) mod 0x3FFFFFFF \<and>
         round_double (of_nat (unat (seed1 st')) / 0x3FFFFFFF) = Some r \<and>
         0 \<le> r \<and> r < 1 \<and> rnd_initialised st'))"
proof (intro conjI impI)
  show "rnd_initialised (my_rnd_init st0 s1 s2)"
    by (simp add: rnd_initialised_def my_rnd_init_def Let_def mod_max30_less[OF w]
        double_of_max30[OF w])
next
  assume i: "rnd_initialised st"
  define a where "a = (seed1 st * 3 + seed2 st) mod 0x3FFFFFFF"
  define b where "b = (a + seed2 st + 33) mod 0x3FFFFFFF"
  define st' where "st' = st\<lparr>seed1 := a, seed2 := b\<rparr>"
  from i have mv: "max_value st = 0x3FFFFFFF" and md: "max_value_dbl st = Some 0x3FFFFFFF"
    and s1: "seed1 st < 0x3FFFFFFF" and s2: "seed2 st < 0x3FFFFFFF"
    by (simp_all add: rnd_initialised_def)
  have a_lt: "a < 0x3FFFFFFF" and b_lt: "b < 0x3FFFFFFF"
    by (simp_all add: a_def b_def mod_max30_less[OF w])
  then have ua: "unat a < 1073741823"
    by (simp add: word_less_nat_alt take_bit_small[OF w])
  then have "unat a < 2 ^ 53" by simp
  then have da: "double_of_word a = Some (of_nat (unat a))" by (rule double_of_small)
  from round_double_unit[OF quotient_unit[OF ua]]
  obtain r where r: "round_double (of_nat (unat a) / 1073741823) = Some r" "0 \<le> r" "r < 1"
    by blast
  have nz: "max_value st \<noteq> 0" by (simp only: mv max30_neq_0[OF w] not_False_eq_True)
  have "my_rnd st = Inr (st', double_div (double_of_word a) (max_value_dbl st))"
    using nz by (simp add: my_rnd_def Let_def st'_def a_def b_def mv)
  then have run: "my_rnd st = Inr (st', Some r)"
    using r(1) by (simp add: md da double_div_def)
  have "unat (seed1 st') = (unat (seed1 st) * 3 + unat (seed2 st)) mod 0x3FFFFFFF"
    by (simp add: st'_def a_def lcg_seed1[OF w s1 s2])
  moreover have "unat (seed2 st') = (unat (seed1 st') + unat (seed2 st) + 33) mod 0x3FFFFFFF"
    by (simp add: st'_def b_def lcg_seed2[OF w a_lt s2])
  moreover have "rnd_initialised st'"
    by (simp add: rnd_initialised_def st'_def mv md a_lt b_lt)
  moreover have "round_double (of_nat (unat (seed1 st')) / 0x3FFFFFFF) = Some r"
    using r(1) by (simp add: st'_def)
  ultimately show "\<exists>st' r. my_rnd st = Inr (st', Some r) \<and>
         unat (seed1 st') = (unat (seed1 st) * 3 + unat (seed2 st)) mod 0x3FFFFFFF \<and>
         unat (seed2 st') = (unat (seed1 st') + unat (seed2 st) + 33) mod 0x3FFFFFFF \<and>
         round_double (of_nat (unat (seed1 st')) / 0x3FFFFFFF) = Some r \<and>
         0 \<le> r \<and> r < 1 \<and> rnd_initialised st'"
    using run r(2,3) by blast
qed

theorem my_rnd_step_witness:
  "32 \<le> LENGTH(64) \<and>
   rnd_initialised (\<lparr>seed1 = 1, seed2 = 2, max_value = 0x3FFFFFFF,
      max_value_dbl = Some 0x3FFFFFFF\<rparr> :: 64 my_rnd_struct) \<and>
   (\<exists>st' r. my_rnd (\<lparr>seed1 = 1, seed2 = 2, max_value = 0x3FFFFFFF,
        max_value_dbl = Some 0x3FFFFFFF\<rparr> :: 64 my_rnd_struct) = Inr (st', Some r) \<and>
      unat (seed1 st') = 5 \<and> unat (seed2 st') = 40 \<and> 0 \<le> r \<and> r < 1)"
proof -
  let ?st = "\<lparr>seed1 = 1, seed2 = 2, max_value = 0x3FFFFFFF,
      max_value_dbl = Some 0x3FFFFFFF\<rparr> :: 64 my_rnd_struct"
  have w: "32 \<le> LENGTH(64)" by simp
  have i: "rnd_initialised ?st" by (simp add: rnd_initialised_def)
  from my_rnd_step[OF w, where st = ?st] i
  obtain st' r where "my_rnd ?st = Inr (st', Some r)"
    "unat (seed1 st') = (unat (seed1 ?st) * 3 + unat (seed2 ?st)) mod 0x3FFFFFFF"
    "unat (seed2 st') = (unat (seed1 st') + unat (seed2 ?st) + 33) mod 0x3FFFFFFF"
    "0 \<le> r" "r < 1"
    by blast
  then have "my_rnd ?st = Inr (st', Some r) \<and> unat (seed1 st') = 5 \<and> unat (seed2 st') = 40 \<and>
      0 \<le> r \<and> r < 1"
    by simp
  with w i show ?thesis by blast
qed

lemma my_rnd_ssl_branches:
  "(\<not> have_ssl \<or> rc = 0 \<longrightarrow> my_rnd_ssl have_ssl (rc, res) st = my_rnd st) \<and>
   (have_ssl \<and> rc \<noteq> 0 \<longrightarrow>
      my_rnd_ssl have_ssl (rc, res) st =
        Inr (st, round_double (of_nat (unat res) / of_nat (unat UINT_MAX))))"
proof -
  have "unat res < 2 ^ 32" using unsigned_less[of res] by simp
  then have "unat res < 2 ^ 53" by simp
  then have r: "double_of_word res = Some (of_nat (unat res))" by (rule double_of_small)
  have u: "double_of_word UINT_MAX = Some (of_nat (unat UINT_MAX))"
    by (rule double_of_small) (simp add: UINT_MAX_def)
  have "(of_nat (unat UINT_MAX) :: rat) \<noteq> 0" by (simp add: UINT_MAX_def)
  with r u show ?thesis
    by (auto simp: my_rnd_ssl_def double_div_def)
qed

text \<open>
  Claim C8 holds where the call returns 0 or the build has no SSL library
  (\<open>my_rnd_ssl_branches\<close>), and fails where the call fails with a negative code: with
  \<open>rc = - 1\<close> and a \<open>res\<close> that holds 7, \<open>my_rnd_ssl\<close> returns \<open>7 / UINT_MAX\<close> and leaves
  the structure as it was, while \<open>my_rnd\<close> on the same structure moves the seeds to 5
  and 40: \<open>if (rc)\<close> takes the failed call for a success.
\<close>

theorem my_rnd_ssl_negative_rc:
  "my_rnd_ssl True (- 1, 7) (\<lparr>seed1 = 1, seed2 = 2, max_value = 0x3FFFFFFF,
        max_value_dbl = Some 0x3FFFFFFF\<rparr> :: 64 my_rnd_struct) =
     Inr (\<lparr>seed1 = 1, seed2 = 2, max_value = 0x3FFFFFFF, max_value_dbl = Some 0x3FFFFFFF\<rparr>,
          round_double (7 / 4294967295)) \<and>
   (\<exists>r. my_rnd (\<lparr>seed1 = 1, seed2 = 2, max_value = 0x3FFFFFFF,
        max_value_dbl = Some 0x3FFFFFFF\<rparr> :: 64 my_rnd_struct) =
     Inr (\<lparr>seed1 = 5, seed2 = 40, max_value = 0x3FFFFFFF, max_value_dbl = Some 0x3FFFFFFF\<rparr>, r)) \<and>
   my_rnd_ssl True (- 1, 7) (\<lparr>seed1 = 1, seed2 = 2, max_value = 0x3FFFFFFF,
        max_value_dbl = Some 0x3FFFFFFF\<rparr> :: 64 my_rnd_struct) \<noteq>
     my_rnd \<lparr>seed1 = 1, seed2 = 2, max_value = 0x3FFFFFFF, max_value_dbl = Some 0x3FFFFFFF\<rparr>"
proof -
  let ?st = "\<lparr>seed1 = 1, seed2 = 2, max_value = 0x3FFFFFFF,
      max_value_dbl = Some 0x3FFFFFFF\<rparr> :: 64 my_rnd_struct"
  have a: "my_rnd_ssl True (- 1, 7) ?st = Inr (?st, round_double (7 / 4294967295))"
    using my_rnd_ssl_branches[of True "- 1" 7 ?st] by (simp add: UINT_MAX_def)
  have b: "\<exists>r. my_rnd ?st =
      Inr (\<lparr>seed1 = 5, seed2 = 40, max_value = 0x3FFFFFFF, max_value_dbl = Some 0x3FFFFFFF\<rparr>, r)"
    by (simp add: my_rnd_def Let_def)
  from a b have "my_rnd_ssl True (- 1, 7) ?st \<noteq> my_rnd ?st" by auto
  with a b show ?thesis by blast
qed

lemma my_rnd_ssl_success:
  assumes "have_ssl" "fst rb \<noteq> 0"
  shows "my_rnd_ssl have_ssl rb st =
     Inr (st, double_div (double_of_word (snd rb)) (double_of_word UINT_MAX))"
  using assms by (cases rb) (simp add: my_rnd_ssl_def)

lemma my_rnd_ssl_calls_success:
  assumes "have_ssl" "\<forall>rb \<in> set rbs. fst rb \<noteq> 0"
  shows "my_rnd_ssl_calls have_ssl rbs st = Inr st"
  using assms by (induction rbs) (simp_all add: my_rnd_ssl_success)

text \<open>
  Claim C9. When the SSL call succeeds, \<open>my_rnd_ssl\<close> returns the structure as it was and
  a result that does not depend on it; so any number of successful calls leave the
  structure, and with it everything a later \<open>my_rnd\<close> computes, unchanged.
\<close>

theorem my_rnd_ssl_success_frame:
  assumes "have_ssl" "rc \<noteq> 0" "\<forall>rb \<in> set rbs. fst rb \<noteq> 0"
  shows "(\<exists>d. \<forall>st :: 'w::len my_rnd_struct. my_rnd_ssl have_ssl (rc, res) st = Inr (st, d)) \<and>
    my_rnd_ssl_calls have_ssl rbs (st0 :: 'w my_rnd_struct) = Inr st0"
  using assms by (simp add: my_rnd_ssl_success my_rnd_ssl_calls_success)

theorem my_rnd_ssl_success_frame_witness:
  "(\<exists>d. \<forall>st :: 64 my_rnd_struct. my_rnd_ssl True (1, 7) st = Inr (st, d)) \<and>
   my_rnd_ssl_calls True [(1, 7), (- 1, 9)] (\<lparr>seed1 = 1, seed2 = 2, max_value = 0x3FFFFFFF,
        max_value_dbl = Some 0x3FFFFFFF\<rparr> :: 64 my_rnd_struct)
     = Inr \<lparr>seed1 = 1, seed2 = 2, max_value = 0x3FFFFFFF, max_value_dbl = Some 0x3FFFFFFF\<rparr>"
  using my_rnd_ssl_success_frame[of True 1 "[(1, 7), (- 1, 9)]" 7
      "\<lparr>seed1 = 1, seed2 = 2, max_value = 0x3FFFFFFF, max_value_dbl = Some 0x3FFFFFFF\<rparr> :: 64 my_rnd_struct"]
  by simp

section \<open>Properties of the mutexes\<close>

text \<open>
  Claim C3. \<open>TTASFutexMutex::exit\<close>, on every state of the mutex: its first call is the
  atomic swap of \<open>MUTEX_STATE_UNLOCKED\<close> into the lock word with release ordering; the
  futex wake of one waiter follows exactly when the swap replaced
  \<open>MUTEX_STATE_WAITERS\<close>, and nothing else is called; afterwards the lock word is
  \<open>MUTEX_STATE_UNLOCKED\<close>, and the policy is as before.
\<close>

theorem TTASFutexMutex_exit_wakes:
  "m_lock_word (fst (TTASFutexMutex_exit m)) = lock_word_of MUTEX_STATE_UNLOCKED \<and>
   m_policy (fst (TTASFutexMutex_exit m)) = m_policy m \<and>
   snd (TTASFutexMutex_exit m) =
     My_atomic_fas32_explicit MUTEX_STATE_UNLOCKED MY_MEMORY_ORDER_RELEASE #
     (if m_lock_word m = lock_word_of MUTEX_STATE_WAITERS then [Sys_futex_wake_private 1] else [])"
  by (simp add: TTASFutexMutex_exit_def my_atomic_fas_def)

theorem TTASFutexMutex_exit_wakes_witness:
  "TTASFutexMutex_exit \<lparr>m_policy = (), m_lock_word = 2\<rparr> =
     (\<lparr>m_policy = (), m_lock_word = 0\<rparr>,
      [My_atomic_fas32_explicit MUTEX_STATE_UNLOCKED MY_MEMORY_ORDER_RELEASE,
       Sys_futex_wake_private 1]) \<and>
   TTASFutexMutex_exit \<lparr>m_policy = (), m_lock_word = 1\<rparr> =
     (\<lparr>m_policy = (), m_lock_word = 0\<rparr>,
      [My_atomic_fas32_explicit MUTEX_STATE_UNLOCKED MY_MEMORY_ORDER_RELEASE])"
  using TTASFutexMutex_exit_wakes[of "\<lparr>m_policy = (), m_lock_word = 2\<rparr>"]
    TTASFutexMutex_exit_wakes[of "\<lparr>m_policy = (), m_lock_word = 1\<rparr>"]
  by (simp add: prod_eq_iff TTASFutexMutex_exit_def my_atomic_fas_def)

lemma TTASFutexMutex_try_lock_eq:
  "TTASFutexMutex_try_lock m =
     (m_lock_word m = 0, m\<lparr>m_lock_word := (if m_lock_word m = 0 then 1 else m_lock_word m)\<rparr>,
      [My_atomic_cas32_strong_explicit MUTEX_STATE_UNLOCKED MUTEX_STATE_LOCKED
         MY_MEMORY_ORDER_ACQUIRE MY_MEMORY_ORDER_RELAXED])"
  by (simp add: TTASFutexMutex_try_lock_def my_atomic_cas_strong_def)

lemma enter_waits_found:
  assumes "sh (k + n) = 0" "\<forall>j<n. sh (k + j) \<noteq> 0"
  shows "TTASFutexMutex_enter_waits sh k n_waits m t =
    Some (n_waits + of_nat n, m\<lparr>m_lock_word := 2\<rparr>,
      t @ concat (replicate n [My_atomic_fas32_explicit MUTEX_STATE_WAITERS MY_MEMORY_ORDER_ACQUIRE,
                               Sys_futex_wait_private MUTEX_STATE_WAITERS])
        @ [My_atomic_fas32_explicit MUTEX_STATE_WAITERS MY_MEMORY_ORDER_ACQUIRE])"
  using assms
proof (induction n arbitrary: k n_waits m t)
  case 0
  then show ?case
    by (subst TTASFutexMutex_enter_waits.simps) (simp add: my_atomic_fas_def)
next
  case (Suc n)
  from Suc.prems(2) have k0: "sh k \<noteq> 0" by (metis add.right_neutral zero_less_Suc)
  have a: "sh (Suc k + n) = 0" using Suc.prems(1) by simp
  have b: "\<forall>j<n. sh (Suc k + j) \<noteq> 0" using Suc.prems(2)
    by (metis Suc_less_eq add_Suc_shift)
  show ?case
    by (subst TTASFutexMutex_enter_waits.simps)
      (simp add: my_atomic_fas_def k0 Suc.IH[OF a b] add.assoc)
qed

lemma enter_waits_returns:
  "TTASFutexMutex_enter_waits sh k n_waits m t = Some r \<Longrightarrow> \<exists>j. sh (k + j) = 0"
proof (induction rule: TTASFutexMutex_enter_waits.raw_induct[rotated 1, consumes 1])
  case (1 waits sh k n_waits m t r)
  show ?case
  proof (cases "sh k = 0")
    case True
    then show ?thesis by (metis add.right_neutral)
  next
    case False
    with 1(2) obtain r' where "waits sh (Suc k) (n_waits + 1) (m\<lparr>m_lock_word := 2\<rparr>)
        ((t @ [My_atomic_fas32_explicit MUTEX_STATE_WAITERS MY_MEMORY_ORDER_ACQUIRE]) @
          [Sys_futex_wait_private MUTEX_STATE_WAITERS]) = Some r'"
      by (simp add: my_atomic_fas_def)
    from 1(1)[OF this] obtain j where "sh (Suc k + j) = 0" by blast
    then have "sh (k + Suc j) = 0" by simp
    then show ?thesis by blast
  qed
qed

lemma enter_waits_lock_word:
  "TTASFutexMutex_enter_waits sh k n_waits (m\<lparr>m_lock_word := x\<rparr>) t =
   TTASFutexMutex_enter_waits sh k n_waits m t"
  by (subst TTASFutexMutex_enter_waits.simps, subst (2) TTASFutexMutex_enter_waits.simps) simp


lemma unat_Suc_less:
  fixes n m :: "32 word"
  assumes "n < m"
  shows "unat (n + 1) = Suc (unat n)"
proof -
  from assms have "unat n < unat m" by (simp add: word_less_nat_alt)
  moreover have "unat m < 2 ^ 32" using unsigned_less[of m] by simp
  ultimately show ?thesis by (simp add: unat_word_ariths)
qed

lemma enter_spins_found:
  assumes "unat n_spins + i < unat max_spins" "sh (unat n_spins + i) = 0"
    "\<forall>j<i. sh (unat n_spins + j) \<noteq> 0"
  shows "TTASFutexMutex_enter_spins sh add max_spins max_delay n_spins m t =
    Some (m\<lparr>m_lock_word := 1, m_policy := add (n_spins + of_nat i) 0 (m_policy m)\<rparr>,
      t @ concat (replicate i
            [My_atomic_cas32_strong_explicit MUTEX_STATE_UNLOCKED MUTEX_STATE_LOCKED
               MY_MEMORY_ORDER_ACQUIRE MY_MEMORY_ORDER_RELAXED,
             Ut_delay_rnd_interval 0 max_delay])
        @ [My_atomic_cas32_strong_explicit MUTEX_STATE_UNLOCKED MUTEX_STATE_LOCKED
             MY_MEMORY_ORDER_ACQUIRE MY_MEMORY_ORDER_RELAXED])"
  using assms
proof (induction i arbitrary: n_spins m t)
  case 0
  then have "n_spins < max_spins" by (simp add: word_less_nat_alt)
  with 0 show ?case
    by (subst TTASFutexMutex_enter_spins.simps) (simp add: TTASFutexMutex_try_lock_eq)
next
  case (Suc i)
  from Suc.prems(1) have lt: "n_spins < max_spins" by (simp add: word_less_nat_alt)
  then have u: "unat (n_spins + 1) = Suc (unat n_spins)" by (rule unat_Suc_less)
  from Suc.prems(3) have k0: "sh (unat n_spins) \<noteq> 0" by (metis add.right_neutral zero_less_Suc)
  have a: "unat (n_spins + 1) + i < unat max_spins" using Suc.prems(1) u by simp
  have b: "sh (unat (n_spins + 1) + i) = 0" using Suc.prems(2) u by simp
  have c: "\<forall>j<i. sh (unat (n_spins + 1) + j) \<noteq> 0"
    using Suc.prems(3) u by (metis Suc_less_eq add_Suc_shift)
  show ?case
    by (subst TTASFutexMutex_enter_spins.simps)
      (simp add: lt TTASFutexMutex_try_lock_eq k0 Suc.IH[OF a b c] add.assoc)
qed

lemma enter_spins_exhausted:
  assumes "unat max_spins - unat n_spins = d" "n_spins \<le> max_spins"
    "\<forall>j. unat n_spins \<le> j \<and> j < unat max_spins \<longrightarrow> sh j \<noteq> 0"
  shows "TTASFutexMutex_enter_spins sh add max_spins max_delay n_spins m t =
    (case TTASFutexMutex_enter_waits sh (unat max_spins) 0 m
            (t @ concat (replicate d
               [My_atomic_cas32_strong_explicit MUTEX_STATE_UNLOCKED MUTEX_STATE_LOCKED
                  MY_MEMORY_ORDER_ACQUIRE MY_MEMORY_ORDER_RELAXED,
                Ut_delay_rnd_interval 0 max_delay])) of
       None \<Rightarrow> None
     | Some (n_waits, m', t') \<Rightarrow> Some (m'\<lparr>m_policy := add max_spins n_waits (m_policy m')\<rparr>, t'))"
  using assms
proof (induction d arbitrary: n_spins m t)
  case 0
  then have "unat n_spins = unat max_spins" by (simp add: word_le_nat_alt)
  then have e: "n_spins = max_spins" by (simp add: word_unat_eq_iff)
  show ?case
    unfolding e by (subst TTASFutexMutex_enter_spins.simps) simp
next
  case (Suc d)
  from Suc.prems(1) have "unat n_spins < unat max_spins" by simp
  then have lt: "n_spins < max_spins" by (simp add: word_less_nat_alt)
  then have u: "unat (n_spins + 1) = Suc (unat n_spins)" by (rule unat_Suc_less)
  from Suc.prems(3) \<open>unat n_spins < unat max_spins\<close> have k0: "sh (unat n_spins) \<noteq> 0" by simp
  have a: "unat max_spins - unat (n_spins + 1) = d" using Suc.prems(1) u by simp
  have b: "n_spins + 1 \<le> max_spins"
    using \<open>unat n_spins < unat max_spins\<close> u by (simp add: word_le_nat_alt)
  have c: "\<forall>j. unat (n_spins + 1) \<le> j \<and> j < unat max_spins \<longrightarrow> sh j \<noteq> 0"
    using Suc.prems(3) u by simp
  show ?case
    by (subst TTASFutexMutex_enter_spins.simps)
      (simp add: lt TTASFutexMutex_try_lock_eq k0 Suc.IH[OF a b c] enter_waits_lock_word)
qed

text \<open>
  Claim C4. \<open>TTASFutexMutex::enter\<close>, for every sequence \<open>sh\<close> of values that its
  accesses find in the lock word.

  \<^item> If attempt \<open>i < max_spins\<close> is the first to find the word unlocked, \<open>enter\<close>
    returns with the lock word \<open>MUTEX_STATE_LOCKED\<close> and \<open>add(i, 0)\<close> recorded, after
    \<open>i + 1\<close> compare-and-swaps with a delay between them.
  \<^item> If all \<open>max_spins\<close> attempts fail and the swap after \<open>n\<close> futex waits is the
    first to replace \<open>MUTEX_STATE_UNLOCKED\<close>, \<open>enter\<close> returns with
    \<open>add(max_spins, n)\<close> recorded, after exactly \<open>max_spins\<close> compare-and-swaps (each
    followed by a delay) and \<open>n + 1\<close> swaps of \<open>MUTEX_STATE_WAITERS\<close> with acquire
    ordering, a futex wait after each but the last.
  \<^item> If no access ever finds the word unlocked, \<open>enter\<close> does not return.
\<close>

theorem TTASFutexMutex_enter_phases:
  "(\<forall>i. i < unat max_spins \<and> sh i = lock_word_of MUTEX_STATE_UNLOCKED \<and>
        (\<forall>j<i. sh j \<noteq> lock_word_of MUTEX_STATE_UNLOCKED) \<longrightarrow>
      TTASFutexMutex_enter sh add max_spins max_delay filename line m =
        Some (m\<lparr>m_lock_word := lock_word_of MUTEX_STATE_LOCKED,
                m_policy := add (of_nat i) 0 (m_policy m)\<rparr>,
          concat (replicate i
            [My_atomic_cas32_strong_explicit MUTEX_STATE_UNLOCKED MUTEX_STATE_LOCKED
               MY_MEMORY_ORDER_ACQUIRE MY_MEMORY_ORDER_RELAXED,
             Ut_delay_rnd_interval 0 max_delay])
          @ [My_atomic_cas32_strong_explicit MUTEX_STATE_UNLOCKED MUTEX_STATE_LOCKED
               MY_MEMORY_ORDER_ACQUIRE MY_MEMORY_ORDER_RELAXED])) \<and>
   (\<forall>n. (\<forall>j<unat max_spins. sh j \<noteq> lock_word_of MUTEX_STATE_UNLOCKED) \<and>
        sh (unat max_spins + n) = lock_word_of MUTEX_STATE_UNLOCKED \<and>
        (\<forall>j<n. sh (unat max_spins + j) \<noteq> lock_word_of MUTEX_STATE_UNLOCKED) \<longrightarrow>
      TTASFutexMutex_enter sh add max_spins max_delay filename line m =
        Some (m\<lparr>m_lock_word := lock_word_of MUTEX_STATE_WAITERS,
                m_policy := add max_spins (of_nat n) (m_policy m)\<rparr>,
          concat (replicate (unat max_spins)
            [My_atomic_cas32_strong_explicit MUTEX_STATE_UNLOCKED MUTEX_STATE_LOCKED
               MY_MEMORY_ORDER_ACQUIRE MY_MEMORY_ORDER_RELAXED,
             Ut_delay_rnd_interval 0 max_delay])
          @ concat (replicate n
            [My_atomic_fas32_explicit MUTEX_STATE_WAITERS MY_MEMORY_ORDER_ACQUIRE,
             Sys_futex_wait_private MUTEX_STATE_WAITERS])
          @ [My_atomic_fas32_explicit MUTEX_STATE_WAITERS MY_MEMORY_ORDER_ACQUIRE])) \<and>
   ((\<forall>j. sh j \<noteq> lock_word_of MUTEX_STATE_UNLOCKED) \<longrightarrow>
      TTASFutexMutex_enter sh add max_spins max_delay filename line m = None)"
proof (intro conjI allI impI)
  fix i
  assume "i < unat max_spins \<and> sh i = lock_word_of MUTEX_STATE_UNLOCKED \<and>
    (\<forall>j<i. sh j \<noteq> lock_word_of MUTEX_STATE_UNLOCKED)"
  then have "unat (0 :: 32 word) + i < unat max_spins" "sh (unat (0 :: 32 word) + i) = 0"
    "\<forall>j<i. sh (unat (0 :: 32 word) + j) \<noteq> 0"
    by simp_all
  from enter_spins_found[OF this, of add max_delay m "[]"]
  show "TTASFutexMutex_enter sh add max_spins max_delay filename line m =
        Some (m\<lparr>m_lock_word := lock_word_of MUTEX_STATE_LOCKED,
                m_policy := add (of_nat i) 0 (m_policy m)\<rparr>,
          concat (replicate i
            [My_atomic_cas32_strong_explicit MUTEX_STATE_UNLOCKED MUTEX_STATE_LOCKED
               MY_MEMORY_ORDER_ACQUIRE MY_MEMORY_ORDER_RELAXED,
             Ut_delay_rnd_interval 0 max_delay])
          @ [My_atomic_cas32_strong_explicit MUTEX_STATE_UNLOCKED MUTEX_STATE_LOCKED
               MY_MEMORY_ORDER_ACQUIRE MY_MEMORY_ORDER_RELAXED])"
    by (simp add: TTASFutexMutex_enter_def)
next
  fix n
  assume h: "(\<forall>j<unat max_spins. sh j \<noteq> lock_word_of MUTEX_STATE_UNLOCKED) \<and>
        sh (unat max_spins + n) = lock_word_of MUTEX_STATE_UNLOCKED \<and>
        (\<forall>j<n. sh (unat max_spins + j) \<noteq> lock_word_of MUTEX_STATE_UNLOCKED)"
  then have s: "\<forall>j. unat (0 :: 32 word) \<le> j \<and> j < unat max_spins \<longrightarrow> sh j \<noteq> 0" by simp
  have d: "unat max_spins - unat (0 :: 32 word) = unat max_spins" by simp
  from h have w: "sh (unat max_spins + n) = 0" "\<forall>j<n. sh (unat max_spins + j) \<noteq> 0" by simp_all
  show "TTASFutexMutex_enter sh add max_spins max_delay filename line m =
        Some (m\<lparr>m_lock_word := lock_word_of MUTEX_STATE_WAITERS,
                m_policy := add max_spins (of_nat n) (m_policy m)\<rparr>,
          concat (replicate (unat max_spins)
            [My_atomic_cas32_strong_explicit MUTEX_STATE_UNLOCKED MUTEX_STATE_LOCKED
               MY_MEMORY_ORDER_ACQUIRE MY_MEMORY_ORDER_RELAXED,
             Ut_delay_rnd_interval 0 max_delay])
          @ concat (replicate n
            [My_atomic_fas32_explicit MUTEX_STATE_WAITERS MY_MEMORY_ORDER_ACQUIRE,
             Sys_futex_wait_private MUTEX_STATE_WAITERS])
          @ [My_atomic_fas32_explicit MUTEX_STATE_WAITERS MY_MEMORY_ORDER_ACQUIRE])"
    unfolding TTASFutexMutex_enter_def
    by (simp add: enter_spins_exhausted[OF d _ s] enter_waits_found[OF w])
next
  assume h: "\<forall>j. sh j \<noteq> lock_word_of MUTEX_STATE_UNLOCKED"
  then have s: "\<forall>j. unat (0 :: 32 word) \<le> j \<and> j < unat max_spins \<longrightarrow> sh j \<noteq> 0" by simp
  have d: "unat max_spins - unat (0 :: 32 word) = unat max_spins" by simp
  have "TTASFutexMutex_enter_waits sh (unat max_spins) 0 m t' = None" for t'
  proof (cases "TTASFutexMutex_enter_waits sh (unat max_spins) 0 m t'")
    case (Some r)
    from enter_waits_returns[OF this] h show ?thesis by simp
  qed simp
  then show "TTASFutexMutex_enter sh add max_spins max_delay filename line m = None"
    unfolding TTASFutexMutex_enter_def
    by (simp add: enter_spins_exhausted[OF d _ s])
qed


theorem TTASFutexMutex_enter_phases_witness:
  "TTASFutexMutex_enter (\<lambda>k. if k = 1 then 0 else 1) (\<lambda>a b p. (a, b) # p) 2 7 ''f'' 9
       \<lparr>m_policy = [], m_lock_word = 1\<rparr> =
     Some (\<lparr>m_policy = [(1, 0)], m_lock_word = 1\<rparr>,
       [My_atomic_cas32_strong_explicit MUTEX_STATE_UNLOCKED MUTEX_STATE_LOCKED
          MY_MEMORY_ORDER_ACQUIRE MY_MEMORY_ORDER_RELAXED,
        Ut_delay_rnd_interval 0 7,
        My_atomic_cas32_strong_explicit MUTEX_STATE_UNLOCKED MUTEX_STATE_LOCKED
          MY_MEMORY_ORDER_ACQUIRE MY_MEMORY_ORDER_RELAXED]) \<and>
   TTASFutexMutex_enter (\<lambda>k. if k = 2 then 0 else 1) (\<lambda>a b p. (a, b) # p) 1 7 ''f'' 9
       \<lparr>m_policy = [], m_lock_word = 1\<rparr> =
     Some (\<lparr>m_policy = [(1, 1)], m_lock_word = 2\<rparr>,
       [My_atomic_cas32_strong_explicit MUTEX_STATE_UNLOCKED MUTEX_STATE_LOCKED
          MY_MEMORY_ORDER_ACQUIRE MY_MEMORY_ORDER_RELAXED,
        Ut_delay_rnd_interval 0 7,
        My_atomic_fas32_explicit MUTEX_STATE_WAITERS MY_MEMORY_ORDER_ACQUIRE,
        Sys_futex_wait_private MUTEX_STATE_WAITERS,
        My_atomic_fas32_explicit MUTEX_STATE_WAITERS MY_MEMORY_ORDER_ACQUIRE]) \<and>
   TTASFutexMutex_enter (\<lambda>k. 1) (\<lambda>a b p. (a, b) # p) 1 7 ''f'' 9
       \<lparr>m_policy = [], m_lock_word = 1\<rparr> = None"
proof -
  let ?add = "\<lambda>(a :: 32 word) (b :: 32 word) p. (a, b) # p"
  let ?m = "\<lparr>m_policy = [], m_lock_word = 1\<rparr> :: (32 word \<times> 32 word) list TTASFutexMutex"
  have a: "(1 :: nat) < unat (2 :: 32 word) \<and>
      (if (1 :: nat) = 1 then 0 else 1) = (lock_word_of MUTEX_STATE_UNLOCKED :: 32 word) \<and>
      (\<forall>j<1 :: nat. (if j = 1 then 0 else 1) \<noteq> (lock_word_of MUTEX_STATE_UNLOCKED :: 32 word))"
    by simp
  have b: "(\<forall>j<unat (1 :: 32 word). (if j = 2 then 0 else 1) \<noteq> (lock_word_of MUTEX_STATE_UNLOCKED :: 32 word)) \<and>
      (if unat (1 :: 32 word) + 1 = 2 then 0 else 1) = (lock_word_of MUTEX_STATE_UNLOCKED :: 32 word) \<and>
      (\<forall>j<1 :: nat. (if unat (1 :: 32 word) + j = 2 then 0 else 1) \<noteq> (lock_word_of MUTEX_STATE_UNLOCKED :: 32 word))"
    by simp
  have c: "\<forall>j :: nat. (1 :: 32 word) \<noteq> lock_word_of MUTEX_STATE_UNLOCKED" by simp
  from TTASFutexMutex_enter_phases[of 2 "\<lambda>k. if k = 1 then 0 else 1" ?add 7 "''f''" 9 ?m,
      THEN conjunct1, THEN spec, THEN mp, OF a]
  have 1: "TTASFutexMutex_enter (\<lambda>k. if k = 1 then 0 else 1) ?add 2 7 ''f'' 9 ?m =
     Some (\<lparr>m_policy = [(1, 0)], m_lock_word = 1\<rparr>,
       [My_atomic_cas32_strong_explicit MUTEX_STATE_UNLOCKED MUTEX_STATE_LOCKED
          MY_MEMORY_ORDER_ACQUIRE MY_MEMORY_ORDER_RELAXED,
        Ut_delay_rnd_interval 0 7,
        My_atomic_cas32_strong_explicit MUTEX_STATE_UNLOCKED MUTEX_STATE_LOCKED
          MY_MEMORY_ORDER_ACQUIRE MY_MEMORY_ORDER_RELAXED])"
    by simp
  from TTASFutexMutex_enter_phases[of 1 "\<lambda>k. if k = 2 then 0 else 1" ?add 7 "''f''" 9 ?m,
      THEN conjunct2, THEN conjunct1, THEN spec, THEN mp, OF b]
  have 2: "TTASFutexMutex_enter (\<lambda>k. if k = 2 then 0 else 1) ?add 1 7 ''f'' 9 ?m =
     Some (\<lparr>m_policy = [(1, 1)], m_lock_word = 2\<rparr>,
       [My_atomic_cas32_strong_explicit MUTEX_STATE_UNLOCKED MUTEX_STATE_LOCKED
          MY_MEMORY_ORDER_ACQUIRE MY_MEMORY_ORDER_RELAXED,
        Ut_delay_rnd_interval 0 7,
        My_atomic_fas32_explicit MUTEX_STATE_WAITERS MY_MEMORY_ORDER_ACQUIRE,
        Sys_futex_wait_private MUTEX_STATE_WAITERS,
        My_atomic_fas32_explicit MUTEX_STATE_WAITERS MY_MEMORY_ORDER_ACQUIRE])"
    by simp
  from TTASFutexMutex_enter_phases[of 1 "\<lambda>k. 1" ?add 7 "''f''" 9 ?m,
      THEN conjunct2, THEN conjunct2, THEN mp, OF c]
  have 3: "TTASFutexMutex_enter (\<lambda>k. 1) ?add 1 7 ''f'' 9 ?m = None"
    by simp
  from 1 2 3 show ?thesis by simp
qed



lemma ut_ad_debug: "univ_debug b \<Longrightarrow> ut_ad b c rest = (if c then rest else Inl Assertion_failure)"
  by (simp add: ut_ad_def ut_a_def)

text \<open>
  Claim C6, as stated, fails: in a debug build, while \<open>innodb_calling_exit\<close> is set,
  \<open>destroy\<close> on a mutex that is already freed passes both assertions.
\<close>

theorem OSTrackMutex_destroy_freed_counterexample:
  "OSTrackMutex_destroy \<lparr>univ_debug = True, univ_pfs_mutex = False\<rparr> True
     \<lparr>m_policy = (), m_freed = True, m_locked = False, m_destroy_at_exit = True,
      m_mutex = \<lparr>os_held = False\<rparr>\<rparr> \<noteq> Inl Assertion_failure"
  by (simp add: OSTrackMutex_destroy_def ut_ad_def ut_a_def ut_d_def)

text \<open>
  Claim C6, amended. In a debug build the assertions of \<open>OSTrackMutex::destroy\<close> fail
  on a mutex that is locked, and on one that is already freed while
  \<open>innodb_calling_exit\<close> is not set; on every other mutex \<open>destroy\<close> returns, and then
  the mutex is freed, nothing else of it has changed, and the OS mutex has been destroyed.
\<close>

theorem OSTrackMutex_destroy_debug:
  assumes "univ_debug b"
  shows "(m_locked m \<or> (m_freed m \<and> \<not> calling_exit) \<longrightarrow>
            OSTrackMutex_destroy b calling_exit m = Inl Assertion_failure) \<and>
         (\<not> m_locked m \<and> (calling_exit \<or> \<not> m_freed m) \<longrightarrow>
            (\<exists>m' t. OSTrackMutex_destroy b calling_exit m = Inr (m', t) \<and>
               m_freed m' \<and> m' = m\<lparr>m_freed := True\<rparr> \<and> t = [OSMutex_call_destroy]))"
  using assms by (auto simp: OSTrackMutex_destroy_def ut_ad_debug ut_d_def)

theorem OSTrackMutex_destroy_debug_witness:
  "univ_debug \<lparr>univ_debug = True, univ_pfs_mutex = False\<rparr> \<and>
   OSTrackMutex_destroy \<lparr>univ_debug = True, univ_pfs_mutex = False\<rparr> False
     \<lparr>m_policy = (), m_freed = True, m_locked = False, m_destroy_at_exit = True,
      m_mutex = \<lparr>os_held = False\<rparr>\<rparr> = Inl Assertion_failure \<and>
   OSTrackMutex_destroy \<lparr>univ_debug = True, univ_pfs_mutex = False\<rparr> False
     \<lparr>m_policy = (), m_freed = False, m_locked = True, m_destroy_at_exit = True,
      m_mutex = \<lparr>os_held = True\<rparr>\<rparr> = Inl Assertion_failure \<and>
   OSTrackMutex_destroy \<lparr>univ_debug = True, univ_pfs_mutex = False\<rparr> False
     \<lparr>m_policy = (), m_freed = False, m_locked = False, m_destroy_at_exit = True,
      m_mutex = \<lparr>os_held = False\<rparr>\<rparr> =
     Inr (\<lparr>m_policy = (), m_freed = True, m_locked = False, m_destroy_at_exit = True,
           m_mutex = \<lparr>os_held = False\<rparr>\<rparr>, [OSMutex_call_destroy]) \<and>
   OSTrackMutex_destroy \<lparr>univ_debug = True, univ_pfs_mutex = False\<rparr> True
     \<lparr>m_policy = (), m_freed = True, m_locked = False, m_destroy_at_exit = True,
      m_mutex = \<lparr>os_held = False\<rparr>\<rparr> =
     Inr (\<lparr>m_policy = (), m_freed = True, m_locked = False, m_destroy_at_exit = True,
           m_mutex = \<lparr>os_held = False\<rparr>\<rparr>, [OSMutex_call_destroy])"
proof -
  let ?b = "\<lparr>univ_debug = True, univ_pfs_mutex = False\<rparr>"
  have d: "univ_debug ?b" by simp
  let ?m1 = "\<lparr>m_policy = (), m_freed = True, m_locked = False, m_destroy_at_exit = True,
      m_mutex = \<lparr>os_held = False\<rparr>\<rparr>"
  let ?m2 = "\<lparr>m_policy = (), m_freed = False, m_locked = True, m_destroy_at_exit = True,
      m_mutex = \<lparr>os_held = True\<rparr>\<rparr>"
  let ?m3 = "\<lparr>m_policy = (), m_freed = False, m_locked = False, m_destroy_at_exit = True,
      m_mutex = \<lparr>os_held = False\<rparr>\<rparr>"
  have 1: "OSTrackMutex_destroy ?b False ?m1 = Inl Assertion_failure"
    using OSTrackMutex_destroy_debug[OF d, of ?m1 False] by simp
  have 2: "OSTrackMutex_destroy ?b False ?m2 = Inl Assertion_failure"
    using OSTrackMutex_destroy_debug[OF d, of ?m2 False] by simp
  have 3: "OSTrackMutex_destroy ?b False ?m3 = Inr (?m1, [OSMutex_call_destroy])"
    using OSTrackMutex_destroy_debug[OF d, of ?m3 False] by simp
  have 4: "OSTrackMutex_destroy ?b True ?m1 = Inr (?m1, [OSMutex_call_destroy])"
    using OSTrackMutex_destroy_debug[OF d, of ?m1 True] by simp
  from d 1 2 3 4 show ?thesis by blast
qed

lemma PolicyMutex_trylock_locked:
  assumes "try_lock (m_impl m) = Inr (True, i1, t1)"
  shows "\<exists>t. PolicyMutex_trylock b locker try_lock policy name line m =
    Inr (0, m\<lparr>m_impl := i1\<lparr>m_policy := policy_locked policy
            (i1\<lparr>m_policy := policy_enter policy i1 name line (m_policy i1)\<rparr>) name line
            (policy_enter policy i1 name line (m_policy i1))\<rparr>\<rparr>, t)"
  using assms by (simp add: PolicyMutex_trylock_def Let_def split: prod.split)

lemma PolicyMutex_trylock_failed:
  assumes "try_lock (m_impl m) = Inr (False, i1, t1)"
  shows "\<exists>t. PolicyMutex_trylock b locker try_lock policy name line m = Inr (1, m\<lparr>m_impl := i1\<rparr>, t)"
  using assms by (simp add: PolicyMutex_trylock_def Let_def split: prod.split)

lemma TTASMutex_try_lock_eq:
  "TTASMutex_try_lock i =
     (if m_lock_word i = lock_word_of MUTEX_STATE_UNLOCKED
      then (True, i\<lparr>m_lock_word := lock_word_of MUTEX_STATE_LOCKED\<rparr>,
            [My_atomic_cas32_strong_explicit MUTEX_STATE_UNLOCKED MUTEX_STATE_LOCKED
               MY_MEMORY_ORDER_ACQUIRE MY_MEMORY_ORDER_RELAXED])
      else (False, i,
            [My_atomic_cas32_strong_explicit MUTEX_STATE_UNLOCKED MUTEX_STATE_LOCKED
               MY_MEMORY_ORDER_ACQUIRE MY_MEMORY_ORDER_RELAXED]))"
  by (simp add: TTASMutex_try_lock_def my_atomic_cas_strong_def)

lemma TTASFutexMutex_try_lock_cases:
  "TTASFutexMutex_try_lock i =
     (if m_lock_word i = lock_word_of MUTEX_STATE_UNLOCKED
      then (True, i\<lparr>m_lock_word := lock_word_of MUTEX_STATE_LOCKED\<rparr>,
            [My_atomic_cas32_strong_explicit MUTEX_STATE_UNLOCKED MUTEX_STATE_LOCKED
               MY_MEMORY_ORDER_ACQUIRE MY_MEMORY_ORDER_RELAXED])
      else (False, i,
            [My_atomic_cas32_strong_explicit MUTEX_STATE_UNLOCKED MUTEX_STATE_LOCKED
               MY_MEMORY_ORDER_ACQUIRE MY_MEMORY_ORDER_RELAXED]))"
  by (simp add: TTASFutexMutex_try_lock_def my_atomic_cas_strong_def)

lemma TTASEventMutex_try_lock_eq:
  "TTASEventMutex_try_lock i =
     (m_lock_word i = lock_word_of MUTEX_STATE_UNLOCKED,
      i\<lparr>m_lock_word := lock_word_of MUTEX_STATE_LOCKED\<rparr>,
      [My_atomic_faslong MUTEX_STATE_LOCKED])"
  by (simp add: TTASEventMutex_try_lock_def TTASEventMutex_tas_lock_def my_atomic_fas_def)

lemma OSTrackMutex_try_lock_free:
  assumes "univ_debug b \<longrightarrow> (calling_exit \<or> \<not> m_freed i) \<and> \<not> m_locked i"
    and "\<not> os_held (m_mutex i)"
  shows "OSTrackMutex_try_lock b calling_exit i =
    Inr (True, i\<lparr>m_mutex := (m_mutex i)\<lparr>os_held := True\<rparr>,
                 m_locked := (if univ_debug b then True else m_locked i)\<rparr>,
         [OSMutex_call_try_lock])"
  using assms
  by (auto simp: OSTrackMutex_try_lock_def OSMutex_try_lock_def ut_ad_def ut_a_def ut_d_def)

lemma OSTrackMutex_try_lock_held:
  assumes "univ_debug b \<longrightarrow> calling_exit \<or> \<not> m_freed i"
    and "os_held (m_mutex i)"
  shows "OSTrackMutex_try_lock b calling_exit i =
    Inr (False, i\<lparr>m_mutex := (m_mutex i)\<lparr>os_held := True\<rparr>\<rparr>, [OSMutex_call_try_lock])"
  using assms
  by (auto simp: OSTrackMutex_try_lock_def OSMutex_try_lock_def ut_ad_def ut_a_def ut_d_def)

text \<open>
  Claim C5. \<open>PolicyMutex::trylock\<close>, first over any implementation: when its
  \<open>try_lock\<close> returns true, \<open>trylock\<close> returns 0 and the policy has gone through
  \<open>enter\<close> and then \<open>locked\<close>, each called with the implementation as \<open>try_lock\<close> left
  it; when it returns false, \<open>trylock\<close> returns 1 and the implementation is as
  \<open>try_lock\<close> left it. Then over each of the four implementations of the header: their
  \<open>try_lock\<close> succeeds exactly when the lock word (or the OS mutex) is free, the policy
  functions are called with the lock held, and a failed \<open>try_lock\<close> leaves the policy as
  it was, so that no policy function has run.
\<close>

theorem PolicyMutex_trylock_hooks:
  fixes mE :: "'p TTASMutex PolicyMutex" and mF :: "'p TTASFutexMutex PolicyMutex"
    and mG :: "('l::len, 'p) TTASEventMutex PolicyMutex" and mD :: "'p OSTrackMutex PolicyMutex"
  shows
  "(\<forall>i1 t1. try_lock (m_impl m) = Inr (True, i1, t1) \<longrightarrow>
      (let i2 = i1\<lparr>m_policy := policy_enter policy i1 name line (m_policy i1)\<rparr>;
           i3 = i2\<lparr>m_policy := policy_locked policy i2 name line (m_policy i2)\<rparr>
       in \<exists>t. PolicyMutex_trylock b locker try_lock policy name line m =
            Inr (0, m\<lparr>m_impl := i3\<rparr>, t))) \<and>
   (\<forall>i1 t1. try_lock (m_impl m) = Inr (False, i1, t1) \<longrightarrow>
      (\<exists>t. PolicyMutex_trylock b locker try_lock policy name line m =
            Inr (1, m\<lparr>m_impl := i1\<rparr>, t))) \<and>
   (m_lock_word (m_impl mE) = lock_word_of MUTEX_STATE_UNLOCKED \<longrightarrow>
      (let i1 = (m_impl mE)\<lparr>m_lock_word := lock_word_of MUTEX_STATE_LOCKED\<rparr>;
           i2 = i1\<lparr>m_policy := policy_enter pE i1 name line (m_policy i1)\<rparr>;
           i3 = i2\<lparr>m_policy := policy_locked pE i2 name line (m_policy i2)\<rparr>
       in \<exists>t. PolicyMutex_trylock b locker (\<lambda>i. Inr (TTASMutex_try_lock i)) pE name line mE =
            Inr (0, mE\<lparr>m_impl := i3\<rparr>, t))) \<and>
   (m_lock_word (m_impl mE) \<noteq> lock_word_of MUTEX_STATE_UNLOCKED \<longrightarrow>
      (\<exists>t. PolicyMutex_trylock b locker (\<lambda>i. Inr (TTASMutex_try_lock i)) pE name line mE =
            Inr (1, mE, t))) \<and>
   (m_lock_word (m_impl mF) = lock_word_of MUTEX_STATE_UNLOCKED \<longrightarrow>
      (let i1 = (m_impl mF)\<lparr>m_lock_word := lock_word_of MUTEX_STATE_LOCKED\<rparr>;
           i2 = i1\<lparr>m_policy := policy_enter pF i1 name line (m_policy i1)\<rparr>;
           i3 = i2\<lparr>m_policy := policy_locked pF i2 name line (m_policy i2)\<rparr>
       in \<exists>t. PolicyMutex_trylock b locker (\<lambda>i. Inr (TTASFutexMutex_try_lock i)) pF name line mF =
            Inr (0, mF\<lparr>m_impl := i3\<rparr>, t))) \<and>
   (m_lock_word (m_impl mF) \<noteq> lock_word_of MUTEX_STATE_UNLOCKED \<longrightarrow>
      (\<exists>t. PolicyMutex_trylock b locker (\<lambda>i. Inr (TTASFutexMutex_try_lock i)) pF name line mF =
            Inr (1, mF, t))) \<and>
   (m_lock_word (m_impl mG) = lock_word_of MUTEX_STATE_UNLOCKED \<longrightarrow>
      (let i1 = (m_impl mG)\<lparr>m_lock_word := lock_word_of MUTEX_STATE_LOCKED\<rparr>;
           i2 = i1\<lparr>m_policy := policy_enter pG i1 name line (m_policy i1)\<rparr>;
           i3 = i2\<lparr>m_policy := policy_locked pG i2 name line (m_policy i2)\<rparr>
       in \<exists>t. PolicyMutex_trylock b locker (\<lambda>i. Inr (TTASEventMutex_try_lock i)) pG name line mG =
            Inr (0, mG\<lparr>m_impl := i3\<rparr>, t))) \<and>
   (m_lock_word (m_impl mG) \<noteq> lock_word_of MUTEX_STATE_UNLOCKED \<longrightarrow>
      (\<exists>t. PolicyMutex_trylock b locker (\<lambda>i. Inr (TTASEventMutex_try_lock i)) pG name line mG =
            Inr (1, mG\<lparr>m_impl := (m_impl mG)\<lparr>m_lock_word := lock_word_of MUTEX_STATE_LOCKED\<rparr>\<rparr>, t))) \<and>
   ((univ_debug b \<longrightarrow> (calling_exit \<or> \<not> m_freed (m_impl mD)) \<and> \<not> m_locked (m_impl mD)) \<and>
    \<not> os_held (m_mutex (m_impl mD)) \<longrightarrow>
      (let i1 = (m_impl mD)\<lparr>m_mutex := (m_mutex (m_impl mD))\<lparr>os_held := True\<rparr>,
                  m_locked := (if univ_debug b then True else m_locked (m_impl mD))\<rparr>;
           i2 = i1\<lparr>m_policy := policy_enter pD i1 name line (m_policy i1)\<rparr>;
           i3 = i2\<lparr>m_policy := policy_locked pD i2 name line (m_policy i2)\<rparr>
       in \<exists>t. PolicyMutex_trylock b locker (OSTrackMutex_try_lock b calling_exit) pD name line mD =
            Inr (0, mD\<lparr>m_impl := i3\<rparr>, t))) \<and>
   ((univ_debug b \<longrightarrow> calling_exit \<or> \<not> m_freed (m_impl mD)) \<and> os_held (m_mutex (m_impl mD)) \<longrightarrow>
      (\<exists>t. PolicyMutex_trylock b locker (OSTrackMutex_try_lock b calling_exit) pD name line mD =
            Inr (1, mD, t)))"
proof (intro conjI impI allI)
  fix i1 t1
  assume "try_lock (m_impl m) = Inr (True, i1, t1)"
  then have "\<exists>t. PolicyMutex_trylock b locker try_lock policy name line m =
    Inr (0, m\<lparr>m_impl := i1\<lparr>m_policy := policy_locked policy
            (i1\<lparr>m_policy := policy_enter policy i1 name line (m_policy i1)\<rparr>) name line
            (policy_enter policy i1 name line (m_policy i1))\<rparr>\<rparr>, t)"
    by (rule PolicyMutex_trylock_locked)
  then show "let i2 = i1\<lparr>m_policy := policy_enter policy i1 name line (m_policy i1)\<rparr>;
           i3 = i2\<lparr>m_policy := policy_locked policy i2 name line (m_policy i2)\<rparr>
       in \<exists>t. PolicyMutex_trylock b locker try_lock policy name line m =
            Inr (0, m\<lparr>m_impl := i3\<rparr>, t)"
    by (simp add: Let_def)
next
  fix i1 t1
  assume "try_lock (m_impl m) = Inr (False, i1, t1)"
  then show "\<exists>t. PolicyMutex_trylock b locker try_lock policy name line m =
      Inr (1, m\<lparr>m_impl := i1\<rparr>, t)"
    by (rule PolicyMutex_trylock_failed)
next
  assume "m_lock_word (m_impl mE) = lock_word_of MUTEX_STATE_UNLOCKED"
  then have "(\<lambda>i. Inr (TTASMutex_try_lock i)) (m_impl mE) =
      Inr (True, (m_impl mE)\<lparr>m_lock_word := lock_word_of MUTEX_STATE_LOCKED\<rparr>,
        [My_atomic_cas32_strong_explicit MUTEX_STATE_UNLOCKED MUTEX_STATE_LOCKED
           MY_MEMORY_ORDER_ACQUIRE MY_MEMORY_ORDER_RELAXED])"
    by (simp add: TTASMutex_try_lock_eq)
  from PolicyMutex_trylock_locked[of "\<lambda>i. Inr (TTASMutex_try_lock i)", OF this]
  show "let i1 = (m_impl mE)\<lparr>m_lock_word := lock_word_of MUTEX_STATE_LOCKED\<rparr>;
           i2 = i1\<lparr>m_policy := policy_enter pE i1 name line (m_policy i1)\<rparr>;
           i3 = i2\<lparr>m_policy := policy_locked pE i2 name line (m_policy i2)\<rparr>
       in \<exists>t. PolicyMutex_trylock b locker (\<lambda>i. Inr (TTASMutex_try_lock i)) pE name line mE =
            Inr (0, mE\<lparr>m_impl := i3\<rparr>, t)"
    by (simp add: Let_def)
next
  assume "m_lock_word (m_impl mE) \<noteq> lock_word_of MUTEX_STATE_UNLOCKED"
  then have "(\<lambda>i. Inr (TTASMutex_try_lock i)) (m_impl mE) =
      Inr (False, m_impl mE,
        [My_atomic_cas32_strong_explicit MUTEX_STATE_UNLOCKED MUTEX_STATE_LOCKED
           MY_MEMORY_ORDER_ACQUIRE MY_MEMORY_ORDER_RELAXED])"
    by (simp add: TTASMutex_try_lock_eq)
  from PolicyMutex_trylock_failed[of "\<lambda>i. Inr (TTASMutex_try_lock i)", OF this]
  show "\<exists>t. PolicyMutex_trylock b locker (\<lambda>i. Inr (TTASMutex_try_lock i)) pE name line mE =
            Inr (1, mE, t)"
    by simp
next
  assume "m_lock_word (m_impl mF) = lock_word_of MUTEX_STATE_UNLOCKED"
  then have "(\<lambda>i. Inr (TTASFutexMutex_try_lock i)) (m_impl mF) =
      Inr (True, (m_impl mF)\<lparr>m_lock_word := lock_word_of MUTEX_STATE_LOCKED\<rparr>,
        [My_atomic_cas32_strong_explicit MUTEX_STATE_UNLOCKED MUTEX_STATE_LOCKED
           MY_MEMORY_ORDER_ACQUIRE MY_MEMORY_ORDER_RELAXED])"
    by (simp add: TTASFutexMutex_try_lock_cases)
  from PolicyMutex_trylock_locked[of "\<lambda>i. Inr (TTASFutexMutex_try_lock i)", OF this]
  show "let i1 = (m_impl mF)\<lparr>m_lock_word := lock_word_of MUTEX_STATE_LOCKED\<rparr>;
           i2 = i1\<lparr>m_policy := policy_enter pF i1 name line (m_policy i1)\<rparr>;
           i3 = i2\<lparr>m_policy := policy_locked pF i2 name line (m_policy i2)\<rparr>
       in \<exists>t. PolicyMutex_trylock b locker (\<lambda>i. Inr (TTASFutexMutex_try_lock i)) pF name line mF =
            Inr (0, mF\<lparr>m_impl := i3\<rparr>, t)"
    by (simp add: Let_def)
next
  assume "m_lock_word (m_impl mF) \<noteq> lock_word_of MUTEX_STATE_UNLOCKED"
  then have "(\<lambda>i. Inr (TTASFutexMutex_try_lock i)) (m_impl mF) =
      Inr (False, m_impl mF,
        [My_atomic_cas32_strong_explicit MUTEX_STATE_UNLOCKED MUTEX_STATE_LOCKED
           MY_MEMORY_ORDER_ACQUIRE MY_MEMORY_ORDER_RELAXED])"
    by (simp add: TTASFutexMutex_try_lock_cases)
  from PolicyMutex_trylock_failed[of "\<lambda>i. Inr (TTASFutexMutex_try_lock i)", OF this]
  show "\<exists>t. PolicyMutex_trylock b locker (\<lambda>i. Inr (TTASFutexMutex_try_lock i)) pF name line mF =
            Inr (1, mF, t)"
    by simp
next
  assume "m_lock_word (m_impl mG) = lock_word_of MUTEX_STATE_UNLOCKED"
  then have "(\<lambda>i. Inr (TTASEventMutex_try_lock i)) (m_impl mG) =
      Inr (True, (m_impl mG)\<lparr>m_lock_word := lock_word_of MUTEX_STATE_LOCKED\<rparr>,
        [My_atomic_faslong MUTEX_STATE_LOCKED])"
    by (simp add: TTASEventMutex_try_lock_eq)
  from PolicyMutex_trylock_locked[of "\<lambda>i. Inr (TTASEventMutex_try_lock i)", OF this]
  show "let i1 = (m_impl mG)\<lparr>m_lock_word := lock_word_of MUTEX_STATE_LOCKED\<rparr>;
           i2 = i1\<lparr>m_policy := policy_enter pG i1 name line (m_policy i1)\<rparr>;
           i3 = i2\<lparr>m_policy := policy_locked pG i2 name line (m_policy i2)\<rparr>
       in \<exists>t. PolicyMutex_trylock b locker (\<lambda>i. Inr (TTASEventMutex_try_lock i)) pG name line mG =
            Inr (0, mG\<lparr>m_impl := i3\<rparr>, t)"
    by (simp add: Let_def)
next
  assume "m_lock_word (m_impl mG) \<noteq> lock_word_of MUTEX_STATE_UNLOCKED"
  then have "(\<lambda>i. Inr (TTASEventMutex_try_lock i)) (m_impl mG) =
      Inr (False, (m_impl mG)\<lparr>m_lock_word := lock_word_of MUTEX_STATE_LOCKED\<rparr>,
        [My_atomic_faslong MUTEX_STATE_LOCKED])"
    by (simp add: TTASEventMutex_try_lock_eq)
  from PolicyMutex_trylock_failed[of "\<lambda>i. Inr (TTASEventMutex_try_lock i)", OF this]
  show "\<exists>t. PolicyMutex_trylock b locker (\<lambda>i. Inr (TTASEventMutex_try_lock i)) pG name line mG =
      Inr (1, mG\<lparr>m_impl := (m_impl mG)\<lparr>m_lock_word := lock_word_of MUTEX_STATE_LOCKED\<rparr>\<rparr>, t)"
    by simp
next
  assume a: "(univ_debug b \<longrightarrow> (calling_exit \<or> \<not> m_freed (m_impl mD)) \<and> \<not> m_locked (m_impl mD)) \<and>
    \<not> os_held (m_mutex (m_impl mD))"
  from PolicyMutex_trylock_locked[of "OSTrackMutex_try_lock b calling_exit",
      OF OSTrackMutex_try_lock_free[OF conjunct1[OF a] conjunct2[OF a]]]
  show "let i1 = (m_impl mD)\<lparr>m_mutex := (m_mutex (m_impl mD))\<lparr>os_held := True\<rparr>,
                  m_locked := (if univ_debug b then True else m_locked (m_impl mD))\<rparr>;
           i2 = i1\<lparr>m_policy := policy_enter pD i1 name line (m_policy i1)\<rparr>;
           i3 = i2\<lparr>m_policy := policy_locked pD i2 name line (m_policy i2)\<rparr>
       in \<exists>t. PolicyMutex_trylock b locker (OSTrackMutex_try_lock b calling_exit) pD name line mD =
            Inr (0, mD\<lparr>m_impl := i3\<rparr>, t)"
    by (simp add: Let_def)
next
  assume a: "(univ_debug b \<longrightarrow> calling_exit \<or> \<not> m_freed (m_impl mD)) \<and> os_held (m_mutex (m_impl mD))"
  then have "(m_mutex (m_impl mD))\<lparr>os_held := True\<rparr> = m_mutex (m_impl mD)" by simp
  with PolicyMutex_trylock_failed[of "OSTrackMutex_try_lock b calling_exit",
      OF OSTrackMutex_try_lock_held[OF conjunct1[OF a] conjunct2[OF a]]]
  show "\<exists>t. PolicyMutex_trylock b locker (OSTrackMutex_try_lock b calling_exit) pD name line mD =
            Inr (1, mD, t)"
    by simp
qed


theorem PolicyMutex_trylock_hooks_witness:
  "(\<exists>t. PolicyMutex_trylock \<lparr>univ_debug = True, univ_pfs_mutex = True\<rparr> 4
           (\<lambda>i. Inr (TTASMutex_try_lock i))
           \<lparr>policy_enter = (\<lambda>i n l p. p @ [(''enter'', m_lock_word i \<noteq> 0)]),
            policy_locked = (\<lambda>i n l p. p @ [(''locked'', m_lock_word i \<noteq> 0)])\<rparr> ''f'' 9
           \<lparr>m_impl = \<lparr>m_policy = [], m_lock_word = 0\<rparr>, m_ptr = 3\<rparr> =
         Inr (0, \<lparr>m_impl = \<lparr>m_policy = [(''enter'', True), (''locked'', True)], m_lock_word = 1\<rparr>,
                   m_ptr = 3\<rparr>, t)) \<and>
   (\<exists>t. PolicyMutex_trylock \<lparr>univ_debug = True, univ_pfs_mutex = True\<rparr> 4
           (\<lambda>i. Inr (TTASFutexMutex_try_lock i))
           \<lparr>policy_enter = (\<lambda>i n l p. p @ [(''enter'', m_lock_word i \<noteq> 0)]),
            policy_locked = (\<lambda>i n l p. p @ [(''locked'', m_lock_word i \<noteq> 0)])\<rparr> ''f'' 9
           \<lparr>m_impl = \<lparr>m_policy = [], m_lock_word = 0\<rparr>, m_ptr = 3\<rparr> =
         Inr (0, \<lparr>m_impl = \<lparr>m_policy = [(''enter'', True), (''locked'', True)], m_lock_word = 1\<rparr>,
                   m_ptr = 3\<rparr>, t)) \<and>
   (\<exists>t. PolicyMutex_trylock \<lparr>univ_debug = True, univ_pfs_mutex = True\<rparr> 4
           (\<lambda>i. Inr (TTASEventMutex_try_lock i))
           \<lparr>policy_enter = (\<lambda>i n l p. p @ [(''enter'', m_lock_word i \<noteq> 0)]),
            policy_locked = (\<lambda>i n l p. p @ [(''locked'', m_lock_word i \<noteq> 0)])\<rparr> ''f'' 9
           \<lparr>m_impl = \<lparr>m_policy = [], m_lock_word = 0 :: 64 word, m_waiters = 0, m_event = 7\<rparr>,
            m_ptr = 3\<rparr> =
         Inr (0, \<lparr>m_impl = \<lparr>m_policy = [(''enter'', True), (''locked'', True)], m_lock_word = 1,
                             m_waiters = 0, m_event = 7\<rparr>, m_ptr = 3\<rparr>, t)) \<and>
   (\<exists>t. PolicyMutex_trylock \<lparr>univ_debug = True, univ_pfs_mutex = True\<rparr> 4
           (OSTrackMutex_try_lock \<lparr>univ_debug = True, univ_pfs_mutex = True\<rparr> False)
           \<lparr>policy_enter = (\<lambda>i n l p. p @ [(''enter'', m_locked i)]),
            policy_locked = (\<lambda>i n l p. p @ [(''locked'', m_locked i)])\<rparr> ''f'' 9
           \<lparr>m_impl = \<lparr>m_policy = [], m_freed = False, m_locked = False, m_destroy_at_exit = True,
                       m_mutex = \<lparr>os_held = False\<rparr>\<rparr>, m_ptr = 3\<rparr> =
         Inr (0, \<lparr>m_impl = \<lparr>m_policy = [(''enter'', True), (''locked'', True)], m_freed = False,
                             m_locked = True, m_destroy_at_exit = True,
                             m_mutex = \<lparr>os_held = True\<rparr>\<rparr>, m_ptr = 3\<rparr>, t)) \<and>
   (\<exists>t. PolicyMutex_trylock \<lparr>univ_debug = True, univ_pfs_mutex = True\<rparr> 4
           (\<lambda>i. Inr (TTASMutex_try_lock i))
           \<lparr>policy_enter = (\<lambda>i n l p. p @ [(''enter'', m_lock_word i \<noteq> 0)]),
            policy_locked = (\<lambda>i n l p. p @ [(''locked'', m_lock_word i \<noteq> 0)])\<rparr> ''f'' 9
           \<lparr>m_impl = \<lparr>m_policy = [], m_lock_word = 1\<rparr>, m_ptr = 3\<rparr> =
         Inr (1, \<lparr>m_impl = \<lparr>m_policy = [], m_lock_word = 1\<rparr>, m_ptr = 3\<rparr>, t)) \<and>
   (\<exists>t. PolicyMutex_trylock \<lparr>univ_debug = True, univ_pfs_mutex = True\<rparr> 4
           (\<lambda>i. Inr (TTASFutexMutex_try_lock i))
           \<lparr>policy_enter = (\<lambda>i n l p. p @ [(''enter'', m_lock_word i \<noteq> 0)]),
            policy_locked = (\<lambda>i n l p. p @ [(''locked'', m_lock_word i \<noteq> 0)])\<rparr> ''f'' 9
           \<lparr>m_impl = \<lparr>m_policy = [], m_lock_word = 2\<rparr>, m_ptr = 3\<rparr> =
         Inr (1, \<lparr>m_impl = \<lparr>m_policy = [], m_lock_word = 2\<rparr>, m_ptr = 3\<rparr>, t)) \<and>
   (\<exists>t. PolicyMutex_trylock \<lparr>univ_debug = True, univ_pfs_mutex = True\<rparr> 4
           (\<lambda>i. Inr (TTASEventMutex_try_lock i))
           \<lparr>policy_enter = (\<lambda>i n l p. p @ [(''enter'', m_lock_word i \<noteq> 0)]),
            policy_locked = (\<lambda>i n l p. p @ [(''locked'', m_lock_word i \<noteq> 0)])\<rparr> ''f'' 9
           \<lparr>m_impl = \<lparr>m_policy = [], m_lock_word = 1 :: 64 word, m_waiters = 0, m_event = 7\<rparr>,
            m_ptr = 3\<rparr> =
         Inr (1, \<lparr>m_impl = \<lparr>m_policy = [], m_lock_word = 1, m_waiters = 0, m_event = 7\<rparr>,
                   m_ptr = 3\<rparr>, t)) \<and>
   (\<exists>t. PolicyMutex_trylock \<lparr>univ_debug = True, univ_pfs_mutex = True\<rparr> 4
           (OSTrackMutex_try_lock \<lparr>univ_debug = True, univ_pfs_mutex = True\<rparr> False)
           \<lparr>policy_enter = (\<lambda>i n l p. p @ [(''enter'', m_locked i)]),
            policy_locked = (\<lambda>i n l p. p @ [(''locked'', m_locked i)])\<rparr> ''f'' 9
           \<lparr>m_impl = \<lparr>m_policy = [], m_freed = False, m_locked = True, m_destroy_at_exit = True,
                       m_mutex = \<lparr>os_held = True\<rparr>\<rparr>, m_ptr = 3\<rparr> =
         Inr (1, \<lparr>m_impl = \<lparr>m_policy = [], m_freed = False, m_locked = True,
                             m_destroy_at_exit = True, m_mutex = \<lparr>os_held = True\<rparr>\<rparr>,
                   m_ptr = 3\<rparr>, t))"
proof -
  let ?b = "\<lparr>univ_debug = True, univ_pfs_mutex = True\<rparr>"
  let ?pw = "\<lambda>u :: unit. \<lparr>policy_enter = (\<lambda>i n l p. p @ [(''enter'', m_lock_word i \<noteq> 0)]),
      policy_locked = (\<lambda>i n l p. p @ [(''locked'', m_lock_word i \<noteq> 0)])\<rparr>"
  let ?pD = "\<lparr>policy_enter = (\<lambda>i n l p. p @ [(''enter'', m_locked i)]),
      policy_locked = (\<lambda>i n l p. p @ [(''locked'', m_locked i)])\<rparr>"
  note free = PolicyMutex_trylock_hooks[where b = ?b and locker = 4 and name = "''f''" and line = 9
      and try_lock = "\<lambda>i. Inr (TTASMutex_try_lock i)" and policy = "?pw ()"
      and m = "\<lparr>m_impl = \<lparr>m_policy = [], m_lock_word = 0\<rparr>, m_ptr = 3\<rparr>"
      and calling_exit = False and pE = "?pw ()" and pF = "?pw ()" and pG = "?pw ()" and pD = ?pD
      and mE = "\<lparr>m_impl = \<lparr>m_policy = [], m_lock_word = 0\<rparr>, m_ptr = 3\<rparr>"
      and mF = "\<lparr>m_impl = \<lparr>m_policy = [], m_lock_word = 0\<rparr>, m_ptr = 3\<rparr>"
      and mG = "\<lparr>m_impl = \<lparr>m_policy = [], m_lock_word = 0 :: 64 word, m_waiters = 0, m_event = 7\<rparr>,
                 m_ptr = 3\<rparr>"
      and mD = "\<lparr>m_impl = \<lparr>m_policy = [], m_freed = False, m_locked = False,
                 m_destroy_at_exit = True, m_mutex = \<lparr>os_held = False\<rparr>\<rparr>, m_ptr = 3\<rparr>"]
  note held = PolicyMutex_trylock_hooks[where b = ?b and locker = 4 and name = "''f''" and line = 9
      and try_lock = "\<lambda>i. Inr (TTASMutex_try_lock i)" and policy = "?pw ()"
      and m = "\<lparr>m_impl = \<lparr>m_policy = [], m_lock_word = 1\<rparr>, m_ptr = 3\<rparr>"
      and calling_exit = False and pE = "?pw ()" and pF = "?pw ()" and pG = "?pw ()" and pD = ?pD
      and mE = "\<lparr>m_impl = \<lparr>m_policy = [], m_lock_word = 1\<rparr>, m_ptr = 3\<rparr>"
      and mF = "\<lparr>m_impl = \<lparr>m_policy = [], m_lock_word = 2\<rparr>, m_ptr = 3\<rparr>"
      and mG = "\<lparr>m_impl = \<lparr>m_policy = [], m_lock_word = 1 :: 64 word, m_waiters = 0, m_event = 7\<rparr>,
                 m_ptr = 3\<rparr>"
      and mD = "\<lparr>m_impl = \<lparr>m_policy = [], m_freed = False, m_locked = True,
                 m_destroy_at_exit = True, m_mutex = \<lparr>os_held = True\<rparr>\<rparr>, m_ptr = 3\<rparr>"]
  from free held show ?thesis by (simp add: Let_def)
qed

lemma spin_and_try_lock_loop_event:
  assumes "TTASEventMutex_spin_and_try_lock_loop b sh wait add step max_delay filename line
      max_spins n_spins n_waits k m t = Some r"
    and "\<forall>k f l s m. m_event (snd (wait k f l s m)) = m_event m"
  shows "\<forall>m' t'. r = Inr (m', t') \<longrightarrow> m_event m' = m_event m"
  using assms
proof (induction rule: TTASEventMutex_spin_and_try_lock_loop.raw_induct[rotated 1, consumes 1])
  case (1 loop b sh wait add step max_delay filename line max_spins n_spins n_waits k m t r)
  note IH = 1(1) and body = 1(2) and frame = 1(3)
  show ?case
  proof (cases "TTASEventMutex_is_free b sh max_spins max_delay n_spins k m")
    case (Inl e)
    with body show ?thesis by auto
  next
    case (Inr x)
    obtain free n_spins' k' c where x: "x = (free, n_spins', k', c)" by (cases x)
    show ?thesis
    proof (cases free)
      case True
      show ?thesis
      proof (cases "m_lock_word (m\<lparr>m_lock_word := sh k'\<rparr>) = lock_word_of MUTEX_STATE_UNLOCKED")
        case True
        with body Inr x \<open>free\<close> show ?thesis
          by (auto simp: TTASEventMutex_try_lock_def TTASEventMutex_tas_lock_def my_atomic_fas_def)
      next
        case False
        with body Inr x \<open>free\<close>
        have "loop b sh wait add step max_delay filename line max_spins n_spins' n_waits (Suc k')
            (m\<lparr>m_lock_word := lock_word_of MUTEX_STATE_LOCKED\<rparr>)
            (t @ c @ [My_atomic_faslong MUTEX_STATE_LOCKED]) = Some r"
          by (auto simp: TTASEventMutex_try_lock_def TTASEventMutex_tas_lock_def my_atomic_fas_def)
        from IH[OF this frame] show ?thesis by simp
      qed
    next
      case False
      obtain acquired m2 where w: "wait k' filename line 4 m = (acquired, m2)"
        by (cases "wait k' filename line 4 m")
      from frame have e2: "m_event m2 = m_event m"
        by (metis w snd_conv)
      show ?thesis
      proof (cases acquired)
        case True
        with body Inr x \<open>\<not> free\<close> w e2 show ?thesis by (auto simp: Let_def)
      next
        case False
        with body Inr x \<open>\<not> free\<close> w
        have "loop b sh wait add step max_delay filename line (n_spins' + step) n_spins'
            (n_waits + 1) (Suc k') m2 (t @ c @ [Os_thread_yield, Call_wait filename line 4]) = Some r"
          by (auto simp: Let_def)
        from IH[OF this frame] e2 show ?thesis by simp
      qed
    qed
  qed
qed

lemma TTASEventMutex_enter_event:
  assumes "TTASEventMutex_enter b sh wait add max_spins max_delay filename line m = Some (Inr (m', t))"
    and "\<forall>k f l s m. m_event (snd (wait k f l s m)) = m_event m"
  shows "m_event m' = m_event m"
proof (cases "sh 0 = lock_word_of MUTEX_STATE_UNLOCKED")
  case True
  with assms(1) show ?thesis
    by (auto simp: TTASEventMutex_enter_def TTASEventMutex_try_lock_def TTASEventMutex_tas_lock_def
        my_atomic_fas_def)
next
  case False
  with assms(1) have "TTASEventMutex_spin_and_try_lock_loop b sh wait add max_spins max_delay
      filename line max_spins 0 0 (Suc 0) (m\<lparr>m_lock_word := lock_word_of MUTEX_STATE_LOCKED\<rparr>)
      ([My_atomic_faslong MUTEX_STATE_LOCKED] @ [Os_rmb]) = Some (Inr (m', t))"
    by (auto simp: TTASEventMutex_enter_def TTASEventMutex_try_lock_def TTASEventMutex_tas_lock_def
        my_atomic_fas_def TTASEventMutex_spin_and_try_lock_def)
  from spin_and_try_lock_loop_event[OF this assms(2)] show ?thesis by simp
qed

lemma TTASEventMutex_apply_event:
  assumes "TTASEventMutex_apply b wait signal add op m = Some (Inr m')"
    and "\<forall>k f l s m. m_event (snd (wait k f l s m)) = m_event m"
    and "\<forall>m. m_event (signal m) = m_event m"
    and "creates_event op"
    and "(m_event m \<noteq> 0) = live"
  shows "(m_event m' \<noteq> 0) = between_init_and_destroy live [op]"
proof (cases op)
  case (Op_init created latch filename line)
  with assms(1,4) show ?thesis
    by (auto simp: TTASEventMutex_init_def ut_a_def split: if_splits)
next
  case Op_destroy
  with assms(1) show ?thesis
    by (auto simp: TTASEventMutex_destroy_def ut_ad_def ut_a_def split: if_splits)
next
  case Op_try_lock
  with assms(1,5) show ?thesis
    by (auto simp: TTASEventMutex_try_lock_def TTASEventMutex_tas_lock_def my_atomic_fas_def)
next
  case Op_exit
  with assms(1,3,5) show ?thesis
    by (auto simp: TTASEventMutex_exit_def TTASEventMutex_tas_unlock_def my_atomic_store_def
        split: if_splits)
next
  case (Op_enter sh max_spins max_delay filename line)
  with assms(1) obtain t where
    "TTASEventMutex_enter b sh wait add max_spins max_delay filename line m = Some (Inr (m', t))"
    by (cases "TTASEventMutex_enter b sh wait add max_spins max_delay filename line m")
      (auto simp: map_sum_def split: sum.splits)
  from TTASEventMutex_enter_event[OF this assms(2)] assms(5) Op_enter show ?thesis by simp
qed

lemma between_init_and_destroy_Cons:
  "between_init_and_destroy live (op # ops) =
     between_init_and_destroy (between_init_and_destroy live [op]) ops"
  by (cases op) simp_all

lemma TTASEventMutex_run_event:
  assumes "TTASEventMutex_run b wait signal add ops m = Some (Inr m')"
    and "\<forall>k f l s m. m_event (snd (wait k f l s m)) = m_event m"
    and "\<forall>m. m_event (signal m) = m_event m"
    and "\<forall>op \<in> set ops. creates_event op"
    and "(m_event m \<noteq> 0) = live"
  shows "(m_event m' \<noteq> 0) = between_init_and_destroy live ops"
  using assms(1,4,5)
proof (induction ops arbitrary: m live)
  case Nil
  then show ?case by simp
next
  case (Cons op ops)
  from Cons.prems(1) obtain m1 where
    a: "TTASEventMutex_apply b wait signal add op m = Some (Inr m1)"
    and r: "TTASEventMutex_run b wait signal add ops m1 = Some (Inr m')"
    by (auto split: option.splits sum.splits)
  from Cons.prems(2) have c: "creates_event op" and cs: "\<forall>op \<in> set ops. creates_event op"
    by simp_all
  from TTASEventMutex_apply_event[OF a assms(2,3) c Cons.prems(3)]
  have "(m_event m1 \<noteq> 0) = between_init_and_destroy live [op]" .
  from Cons.IH[OF r cs this] show ?case
    by (subst between_init_and_destroy_Cons)
qed

lemma TTASEventMutex_destroy_init:
  assumes "m_lock_word m = lock_word_of MUTEX_STATE_UNLOCKED"
  shows "TTASEventMutex_destroy b m = Inr (m\<lparr>m_event := 0\<rparr>, [Os_event_destroy (m_event m)]) \<and>
    TTASEventMutex_init created latch filename line (m\<lparr>m_event := 0\<rparr>) =
      Inr (m\<lparr>m_event := created\<rparr>, [Os_event_create latch])"
  using assms by (simp add: TTASEventMutex_destroy_def TTASEventMutex_init_def ut_ad_def ut_a_def)

text \<open>
  Claim C10. Provided that the handle \<open>os_event_create\<close> returns is never null and that
  the members that the header only declares (\<open>wait\<close>, \<open>signal\<close>) leave \<open>m_event\<close>
  alone: after any operations of a \<open>TTASEventMutex\<close> that ran without a failed
  assertion, \<open>m_event\<close> is nonzero exactly if the last of \<open>init\<close> and \<open>destroy\<close>
  among them was \<open>init\<close> (or, there being none, if it was nonzero before). And on a
  mutex whose lock word is unlocked, \<open>destroy\<close> destroys the event and leaves
  \<open>m_event = 0\<close> and the lock word unlocked, which is what \<open>init\<close> asserts: the
  \<open>init\<close> that follows succeeds and stores the new handle.
\<close>

theorem TTASEventMutex_event_lifecycle:
  assumes "\<forall>k f l s m. m_event (snd (wait k f l s m)) = m_event m"
    and "\<forall>m. m_event (signal m) = m_event m"
    and "\<forall>op \<in> set ops. creates_event op"
  shows "(\<forall>m'. TTASEventMutex_run b wait signal add ops m = Some (Inr m') \<longrightarrow>
            (m_event m' \<noteq> 0) = between_init_and_destroy (m_event m \<noteq> 0) ops) \<and>
         (m_lock_word m = lock_word_of MUTEX_STATE_UNLOCKED \<longrightarrow>
            TTASEventMutex_destroy b m = Inr (m\<lparr>m_event := 0\<rparr>, [Os_event_destroy (m_event m)]) \<and>
            TTASEventMutex_init created latch filename line (m\<lparr>m_event := 0\<rparr>) =
              Inr (m\<lparr>m_event := created\<rparr>, [Os_event_create latch]) \<and>
            TTASEventMutex_run b wait signal add
              [Op_destroy, Op_init created latch filename line] m = Some (Inr (m\<lparr>m_event := created\<rparr>)))"
proof (intro conjI allI impI)
  fix m'
  assume "TTASEventMutex_run b wait signal add ops m = Some (Inr m')"
  from TTASEventMutex_run_event[OF this assms refl]
  show "(m_event m' \<noteq> 0) = between_init_and_destroy (m_event m \<noteq> 0) ops" .
next
  assume u: "m_lock_word m = lock_word_of MUTEX_STATE_UNLOCKED"
  from TTASEventMutex_destroy_init[OF u]
  show "TTASEventMutex_destroy b m = Inr (m\<lparr>m_event := 0\<rparr>, [Os_event_destroy (m_event m)])"
    by simp
  from TTASEventMutex_destroy_init[OF u]
  show "TTASEventMutex_init created latch filename line (m\<lparr>m_event := 0\<rparr>) =
      Inr (m\<lparr>m_event := created\<rparr>, [Os_event_create latch])"
    by simp
  from TTASEventMutex_destroy_init[OF u, of b created latch filename line]
  show "TTASEventMutex_run b wait signal add [Op_destroy, Op_init created latch filename line] m =
      Some (Inr (m\<lparr>m_event := created\<rparr>))"
    by simp
qed


lemma event_life_run:
  "TTASEventMutex_run \<lparr>univ_debug = True, univ_pfs_mutex = False\<rparr>
     (\<lambda>k f l s m. (False, m\<lparr>m_waiters := 1\<rparr>)) (\<lambda>m. m\<lparr>m_waiters := 0\<rparr>) (\<lambda>a b p. (a, b) # p)
     [Op_init 5 1 ''f'' 1, Op_try_lock, Op_exit,
      Op_enter (\<lambda>k. if k < 2 then 1 else 0) 3 7 ''f'' 2, Op_exit,
      Op_destroy, Op_init 6 1 ''f'' 3]
     (TTASEventMutex_new [] :: (64, (32 word \<times> 32 word) list) TTASEventMutex) =
   Some (Inr \<lparr>m_policy = [(1, 0)], m_lock_word = 0, m_waiters = 0, m_event = 6\<rparr>)"
  by code_simp


theorem TTASEventMutex_event_lifecycle_witness:
  "(\<exists>m'. TTASEventMutex_run \<lparr>univ_debug = True, univ_pfs_mutex = False\<rparr>
       (\<lambda>k f l s m. (False, m\<lparr>m_waiters := 1\<rparr>)) (\<lambda>m. m\<lparr>m_waiters := 0\<rparr>) (\<lambda>a b p. (a, b) # p)
       [Op_init 5 1 ''f'' 1, Op_try_lock, Op_exit,
        Op_enter (\<lambda>k. if k < 2 then 1 else 0) 3 7 ''f'' 2, Op_exit,
        Op_destroy, Op_init 6 1 ''f'' 3]
       (TTASEventMutex_new [] :: (64, (32 word \<times> 32 word) list) TTASEventMutex) = Some (Inr m') \<and>
     m_event m' \<noteq> 0) \<and>
   TTASEventMutex_run \<lparr>univ_debug = True, univ_pfs_mutex = False\<rparr>
       (\<lambda>k f l s m. (False, m\<lparr>m_waiters := 1\<rparr>)) (\<lambda>m. m\<lparr>m_waiters := 0\<rparr>) (\<lambda>a b p. (a, b) # p)
       [Op_destroy, Op_init 8 1 ''g'' 4]
       (\<lparr>m_policy = [], m_lock_word = 0, m_waiters = 0, m_event = 5\<rparr>
          :: (64, (32 word \<times> 32 word) list) TTASEventMutex) =
     Some (Inr \<lparr>m_policy = [], m_lock_word = 0, m_waiters = 0, m_event = 8\<rparr>)"
proof -
  let ?b = "\<lparr>univ_debug = True, univ_pfs_mutex = False\<rparr>"
  let ?wait = "\<lambda>(k :: nat) (f :: string) (l :: 32 word) (s :: 32 word)
      (m :: (64, (32 word \<times> 32 word) list) TTASEventMutex). (False, m\<lparr>m_waiters := 1\<rparr>)"
  let ?signal = "\<lambda>m :: (64, (32 word \<times> 32 word) list) TTASEventMutex. m\<lparr>m_waiters := 0\<rparr>"
  let ?add = "\<lambda>(a :: 32 word) (b :: 32 word) p. (a, b) # p"
  let ?ops = "[Op_init 5 1 ''f'' 1, Op_try_lock, Op_exit,
      Op_enter (\<lambda>k. if k < 2 then 1 else 0) 3 7 ''f'' 2, Op_exit,
      Op_destroy, Op_init 6 1 ''f'' 3] :: 64 word event_mutex_op list"
  let ?m0 = "TTASEventMutex_new [] :: (64, (32 word \<times> 32 word) list) TTASEventMutex"
  let ?m1 = "\<lparr>m_policy = [], m_lock_word = 0, m_waiters = 0, m_event = 5\<rparr>
      :: (64, (32 word \<times> 32 word) list) TTASEventMutex"
  have w: "\<forall>k f l s m. m_event (snd (?wait k f l s m)) = m_event m" by simp
  have s: "\<forall>m. m_event (?signal m) = m_event m" by simp
  have c: "\<forall>op \<in> set ?ops. creates_event op" by simp
  have c2: "\<forall>op \<in> set ([] :: 64 word event_mutex_op list). creates_event op" by simp
  have live: "between_init_and_destroy (m_event ?m0 \<noteq> 0) ?ops" by simp
  from TTASEventMutex_event_lifecycle[OF w s c, of ?b ?add ?m0] event_life_run live
  have 1: "\<exists>m'. TTASEventMutex_run ?b ?wait ?signal ?add ?ops ?m0 = Some (Inr m') \<and> m_event m' \<noteq> 0"
    by (metis (no_types, lifting))
  from TTASEventMutex_event_lifecycle[OF w s c2, of ?b ?add ?m1 8 1 "''g''" 4]
  have 2: "TTASEventMutex_run ?b ?wait ?signal ?add [Op_destroy, Op_init 8 1 ''g'' 4] ?m1 =
     Some (Inr \<lparr>m_policy = [], m_lock_word = 0, m_waiters = 0, m_event = 8\<rparr>)"
    by simp
  from 1 2 show ?thesis by (rule conjI)
qed

end
